theory Spec2Isabelle
  imports Complex_Main
begin

section \<open>Tables of the mobility report pipeline\<close>

text \<open>
  The program under study is the command-line driver \<^verbatim>\<open>mobius.py\<close>. Its commands
  \<^verbatim>\<open>knit\<close> and \<^verbatim>\<open>proc\<close> pass pandas data frames between the collaborators of the
  \<^verbatim>\<open>mobius\<close> package and write two tables to disk; the nested function
  \<^verbatim>\<open>validate\<close> compares the last charted value of each plot with its headline.

  A cell of a data frame is a missing entry, a number or a text. A finite float is a
  rational number, so numbers are kept exact as \<^typ>\<open>rat\<close>; infinities do not occur in
  percentages and are left out.
\<close>

datatype cell = NaN | Num rat | Str string

datatype error = KeyError | ValueError | AttributeError | TypeError | Raised string

text \<open>
  A data frame has named columns and positional rows. The frames built by the package and
  by pandas carry pairwise distinct column names and rows as long as the column list.
\<close>

record frame =
  columns :: "string list"
  rows :: "cell list list"

text \<open>
  After the column selection of lines 175 to 185 the reconciled table has exactly nine
  columns, so one of its rows is a record of nine cells (\<^verbatim>\<open>value\<close> is spelt \<open>val\<close>).
\<close>

record rrow =
  country :: cell
  region :: cell
  plot_name :: cell
  page_num :: cell
  plot_num :: cell
  asterisk :: cell
  date :: cell
  val :: cell
  headline :: cell

text \<open>What \<^verbatim>\<open>validate\<close> prints: two counts and the table of mismatching plots.\<close>

record report =
  plots_with_data :: nat
  plots_mismatch :: nat
  mismatch_table :: "(cell \<times> cell \<times> cell \<times> cell \<times> cell) list"

section \<open>The validation step (lines 139 to 152)\<close>

text \<open>\<^verbatim>\<open>s.replace("%", "")\<close> with \<^verbatim>\<open>regex=False\<close> deletes every percent sign.\<close>

definition str_replace_percent :: "string \<Rightarrow> string" where
  "str_replace_percent s = filter (\<lambda>c. c \<noteq> CHR ''%'') s"

text \<open>\<^verbatim>\<open>pat in s\<close>, the test behind \<^verbatim>\<open>str.contains(pat, regex=False)\<close>.\<close>

fun str_contains :: "string \<Rightarrow> string \<Rightarrow> bool" where
  "str_contains [] pat = (pat = [])"
| "str_contains (c # cs) pat = (take (length pat) (c # cs) = pat \<or> str_contains cs pat)"

definition is_text :: "cell \<Rightarrow> bool" where
  "is_text c = (case c of Str _ \<Rightarrow> True | _ \<Rightarrow> False)"

text \<open>
  Lines 140 and 141 use the string accessor of the headline column and then the result of
  \<^verbatim>\<open>str.contains\<close> as a row mask. A column without any text has a numeric dtype and has no
  string accessor; a text column with a cell that is not a text gives a mask with a missing
  entry, which \<^verbatim>\<open>df.loc\<close> refuses.
\<close>

definition headline_accessor :: "rrow list \<Rightarrow> error + unit" where
  "headline_accessor df =
     (if list_all (\<lambda>r. is_text (headline r)) df then Inr ()
      else if list_ex (\<lambda>r. is_text (headline r)) df then Inl ValueError
      else Inl AttributeError)"

text \<open>
  One headline text through lines 140 to 142. The conversion \<^verbatim>\<open>astype(float)\<close> applies
  Python's \<^verbatim>\<open>float\<close> to the text; that reader is a parameter \<open>pf\<close>: \<open>None\<close> when it raises
  \<^verbatim>\<open>ValueError\<close>, \<open>Some None\<close> for a not-a-number, \<open>Some (Some q)\<close> for the number \<open>q\<close>.
\<close>

definition headline_float :: "(string \<Rightarrow> rat option option) \<Rightarrow> string \<Rightarrow> error + cell" where
  "headline_float pf s =
     (let s' = str_replace_percent s
      in if str_contains s' ''Not enough data'' then Inr NaN
         else (case pf s' of
                 None \<Rightarrow> Inl ValueError
               | Some None \<Rightarrow> Inr NaN
               | Some (Some q) \<Rightarrow> Inr (Num q)))"

fun headline_column :: "(string \<Rightarrow> rat option option) \<Rightarrow> rrow list \<Rightarrow> error + rrow list" where
  "headline_column pf [] = Inr []"
| "headline_column pf (r # rs) =
     (case headline r of
        Str s \<Rightarrow>
          (case headline_float pf s of
             Inl e \<Rightarrow> Inl e
           | Inr h \<Rightarrow>
               (case headline_column pf rs of
                  Inl e \<Rightarrow> Inl e
                | Inr rs' \<Rightarrow> Inr (r\<lparr>headline := h\<rparr> # rs')))
      | _ \<Rightarrow> Inl ValueError)"

definition normalise :: "(string \<Rightarrow> rat option option) \<Rightarrow> rrow list \<Rightarrow> error + rrow list" where
  "normalise pf df =
     (case headline_accessor df of Inl e \<Rightarrow> Inl e | Inr _ \<Rightarrow> headline_column pf df)"

text \<open>\<^verbatim>\<open>df.dropna()\<close> keeps the rows without a missing entry in any column.\<close>

definition cells :: "rrow \<Rightarrow> cell list" where
  "cells r = [country r, region r, plot_name r, page_num r, plot_num r,
              asterisk r, date r, val r, headline r]"

definition complete :: "rrow \<Rightarrow> bool" where
  "complete r = (NaN \<notin> set (cells r))"

definition dropna :: "rrow list \<Rightarrow> rrow list" where
  "dropna df = filter complete df"

text \<open>
  \<^verbatim>\<open>groupby(by=["region", "plot_name"]).tail(1)\<close> keeps, in table order, the rows that are
  the last of their group.
\<close>

definition group_key :: "rrow \<Rightarrow> cell \<times> cell" where
  "group_key r = (region r, plot_name r)"

fun tail1 :: "rrow list \<Rightarrow> rrow list" where
  "tail1 [] = []"
| "tail1 (r # rs) =
     (if \<exists>r' \<in> set rs. group_key r' = group_key r then tail1 rs else r # tail1 rs)"

text \<open>
  \<^verbatim>\<open>Series.round()\<close> is numpy's rounding to the nearest integer, with a value halfway
  between two integers going to the even one.
\<close>

definition round_half_even :: "rat \<Rightarrow> int" where
  "round_half_even x =
     (let f = \<lfloor>x\<rfloor>; d = x - of_int f
      in if d < 1 / 2 then f else if 1 / 2 < d then f + 1
         else if even f then f else f + 1)"

definition round_cell :: "cell \<Rightarrow> cell" where
  "round_cell c = (case c of Num v \<Rightarrow> Num (of_int (round_half_even v)) | _ \<Rightarrow> c)"

definition mismatch :: "rrow \<Rightarrow> bool" where
  "mismatch r = (round_cell (val r) \<noteq> headline r)"

definition report_row :: "rrow \<Rightarrow> cell \<times> cell \<times> cell \<times> cell \<times> cell" where
  "report_row r = (country r, region r, plot_name r, val r, headline r)"

text \<open>
  \<^verbatim>\<open>validate\<close>. The value column keeps the dtype it has in the whole table: with a text in
  any of its rows, also in a row that \<^verbatim>\<open>dropna\<close> or \<^verbatim>\<open>tail(1)\<close> leaves out, it is an
  object column, and rounding an entry of such a column raises \<^verbatim>\<open>TypeError\<close>; an empty
  selection has no entry to round. The three \<^verbatim>\<open>print\<close> calls are the three fields of the
  report.
\<close>

definition validate :: "(string \<Rightarrow> rat option option) \<Rightarrow> rrow list \<Rightarrow> error + report" where
  "validate pf df =
     (case normalise pf df of
        Inl e \<Rightarrow> Inl e
      | Inr df' \<Rightarrow>
          (let last_entries = tail1 (dropna df')
           in if list_ex (\<lambda>r. is_text (val r)) df' \<and> last_entries \<noteq> [] then Inl TypeError
              else (let invalid_df = filter mismatch last_entries
                    in Inr \<lparr>plots_with_data = length last_entries,
                            plots_mismatch = length invalid_df,
                            mismatch_table = map report_row invalid_df\<rparr>)))"

text \<open>
  A reader of whole numbers, used as \<open>pf\<close> in the examples below. It agrees with Python's
  \<^verbatim>\<open>float\<close> on the texts made of decimal digits after an optional minus sign, which are
  the texts the examples hand to it; it refuses every other text.
\<close>

definition digit_val :: "char \<Rightarrow> nat option" where
  "digit_val c =
     (let n = (of_char c :: nat) in if 48 \<le> n \<and> n \<le> 57 then Some (n - 48) else None)"

fun read_digits :: "nat \<Rightarrow> string \<Rightarrow> nat option" where
  "read_digits acc [] = Some acc"
| "read_digits acc (c # cs) =
     (case digit_val c of None \<Rightarrow> None | Some d \<Rightarrow> read_digits (10 * acc + d) cs)"

definition whole_float :: "string \<Rightarrow> rat option option" where
  "whole_float s =
     (case s of
        [] \<Rightarrow> None
      | c # cs \<Rightarrow>
          if c = CHR ''-'' then
            (if cs = [] then None
             else map_option (\<lambda>n. Some (- of_nat n)) (read_digits 0 cs))
          else map_option (\<lambda>n. Some (of_nat n)) (read_digits 0 (c # cs)))"

section \<open>Notions used to state the properties of the validation step\<close>

text \<open>
  The current sample of a group is the last of its rows in table order; \<^verbatim>\<open>validate\<close>
  applies it to the rows left by \<^verbatim>\<open>dropna\<close>.
\<close>

definition current_sample :: "rrow list \<Rightarrow> cell \<times> cell \<Rightarrow> rrow option" where
  "current_sample df g =
     (case filter (\<lambda>r. group_key r = g) df of [] \<Rightarrow> None | r # rs \<Rightarrow> Some (last (r # rs)))"

text \<open>A group is reported when the mismatch table has a line with its region and plot name.\<close>

definition reported :: "report \<Rightarrow> cell \<times> cell \<Rightarrow> bool" where
  "reported rep g = (\<exists>e \<in> set (mismatch_table rep). (fst (snd e), fst (snd (snd e))) = g)"

text \<open>
  The order of cells: numbers by value, texts byte by byte (which orders ISO dates by time),
  numbers before texts and missing entries last.
\<close>

fun str_le :: "string \<Rightarrow> string \<Rightarrow> bool" where
  "str_le [] t = True"
| "str_le (a # s) [] = False"
| "str_le (a # s) (b # t) = ((of_char a :: nat) < of_char b \<or> (a = b \<and> str_le s t))"

definition cell_le :: "cell \<Rightarrow> cell \<Rightarrow> bool" where
  "cell_le a b =
     (case (a, b) of
        (_, NaN) \<Rightarrow> True
      | (Num x, Num y) \<Rightarrow> x \<le> y
      | (Num _, Str _) \<Rightarrow> True
      | (Str s, Str t) \<Rightarrow> str_le s t
      | _ \<Rightarrow> False)"

text \<open>
  The specification's reading of the current sample, in its own words the chronologically
  last remaining row of the group: the row with the greatest date, the later row winning
  between equal dates.
\<close>

fun latest :: "rrow \<Rightarrow> rrow list \<Rightarrow> rrow" where
  "latest b [] = b"
| "latest b (r # rs) = latest (if cell_le (date b) (date r) then r else b) rs"

definition chronological_sample :: "rrow list \<Rightarrow> cell \<times> cell \<Rightarrow> rrow option" where
  "chronological_sample df g =
     (case filter (\<lambda>r. group_key r = g) df of [] \<Rightarrow> None | r # rs \<Rightarrow> Some (latest r rs))"

section \<open>Data frames and the merge (lines 170 to 187)\<close>

text \<open>The cell of a row under a column name.\<close>

definition lookup :: "string list \<Rightarrow> cell list \<Rightarrow> string \<Rightarrow> cell" where
  "lookup cols r c = (case map_of (zip cols r) c of Some v \<Rightarrow> v | None \<Rightarrow> NaN)"

text \<open>
  \<^verbatim>\<open>pd.concat(dfs)\<close> stacks the frames over the union of their columns, in the order of
  first appearance, and fills the columns a frame lacks with missing entries. It raises
  \<^verbatim>\<open>ValueError\<close> on an empty list.
\<close>

definition union_columns :: "string list \<Rightarrow> string list" where
  "union_columns cs = rev (remdups (rev cs))"

definition concat_frames :: "frame list \<Rightarrow> error + frame" where
  "concat_frames dfs =
     (if dfs = [] then Inl ValueError
      else (let cols = union_columns (concat (map columns dfs))
            in Inr \<lparr>columns = cols,
                    rows = concat (map (\<lambda>f. map (\<lambda>r. map (lookup (columns f) r) cols) (rows f))
                                     dfs)\<rparr>))"

text \<open>
  \<^verbatim>\<open>pd.merge(summary_df, plot_df, left_on="plot_num", right_on="graph_num", how="outer")\<close>.
  The keys of both frames are taken in sorted order; missing keys come last and match each
  other, as in pandas. Under one key the matching rows are paired, left row by left row; a
  row without a partner is padded with missing entries on the other side. A column name
  that both frames carry gets the suffix \<^verbatim>\<open>_x\<close> on the left and \<^verbatim>\<open>_y\<close> on the right. pandas
  also refuses key columns of unlike dtypes; dtypes are not tracked here, so the model
  describes the merge where pandas performs it.
\<close>

fun insert_cell :: "cell \<Rightarrow> cell list \<Rightarrow> cell list" where
  "insert_cell x [] = [x]"
| "insert_cell x (y # ys) = (if cell_le x y then x # y # ys else y # insert_cell x ys)"

definition sort_cells :: "cell list \<Rightarrow> cell list" where
  "sort_cells xs = foldr insert_cell xs []"

definition suffixed :: "string list \<Rightarrow> string \<Rightarrow> string list \<Rightarrow> string list" where
  "suffixed other sfx cols = map (\<lambda>c. if c \<in> set other then c @ sfx else c) cols"

definition join_group ::
  "nat \<Rightarrow> nat \<Rightarrow> cell list list \<Rightarrow> cell list list \<Rightarrow> cell list list" where
  "join_group nl nr ls rs =
     (if rs = [] then map (\<lambda>l. l @ replicate nr NaN) ls
      else if ls = [] then map (\<lambda>r. replicate nl NaN @ r) rs
      else concat (map (\<lambda>l. map (\<lambda>r. l @ r) rs) ls))"

definition merge_outer :: "frame \<Rightarrow> frame \<Rightarrow> error + frame" where
  "merge_outer left right =
     (if ''plot_num'' \<notin> set (columns left) \<or> ''graph_num'' \<notin> set (columns right)
      then Inl KeyError
      else (let lkey = (\<lambda>l. lookup (columns left) l ''plot_num'');
                rkey = (\<lambda>r. lookup (columns right) r ''graph_num'');
                keys = sort_cells (remdups (map lkey (rows left) @ map rkey (rows right)))
            in Inr \<lparr>columns = suffixed (columns right) ''_x'' (columns left) @
                              suffixed (columns left) ''_y'' (columns right),
                    rows = concat (map (\<lambda>k. join_group (length (columns left))
                                               (length (columns right))
                                               (filter (\<lambda>l. lkey l = k) (rows left))
                                               (filter (\<lambda>r. rkey r = k) (rows right)))
                                     keys)\<rparr>))"

text \<open>
  The selection of the nine columns (lines 175 to 185) raises \<^verbatim>\<open>KeyError\<close> when the merged
  frame lacks one of them.
\<close>

definition final_columns :: "string list" where
  "final_columns = [''country'', ''region'', ''plot_name'', ''page_num'', ''plot_num'',
                    ''asterisk'', ''date'', ''value'', ''headline'']"

definition select_final :: "frame \<Rightarrow> error + rrow list" where
  "select_final f =
     (if set final_columns \<subseteq> set (columns f)
      then Inr (map (\<lambda>r. \<lparr>country = lookup (columns f) r ''country'',
                          region = lookup (columns f) r ''region'',
                          plot_name = lookup (columns f) r ''plot_name'',
                          page_num = lookup (columns f) r ''page_num'',
                          plot_num = lookup (columns f) r ''plot_num'',
                          asterisk = lookup (columns f) r ''asterisk'',
                          date = lookup (columns f) r ''date'',
                          val = lookup (columns f) r ''value'',
                          headline = lookup (columns f) r ''headline''\<rparr>) (rows f))
      else Inl KeyError)"

text \<open>
  A written table: \<^verbatim>\<open>to_csv(path, index=False)\<close> writes the header line with the column
  names and then one line for each row, without an index column.
\<close>

record csv =
  header :: "string list"
  body :: "cell list list"

definition to_csv :: "frame \<Rightarrow> csv" where
  "to_csv f = \<lparr>header = columns f, body = rows f\<rparr>"

definition final_csv :: "rrow list \<Rightarrow> csv" where
  "final_csv df = \<lparr>header = final_columns, body = map cells df\<rparr>"

section \<open>Paths\<close>

definition basename :: "string \<Rightarrow> string" where
  "basename p = rev (takeWhile (\<lambda>c. c \<noteq> CHR ''/'') (rev p))"

text \<open>
  The root that \<^verbatim>\<open>os.path.splitext\<close> gives for a name without a directory part: the name up
  to its last dot, unless only dots stand before that dot.
\<close>

definition splitext_root :: "string \<Rightarrow> string" where
  "splitext_root b =
     (if CHR ''.'' \<in> set b
      then (let root = take (length b - length (takeWhile (\<lambda>c. c \<noteq> CHR ''.'') (rev b)) - 1) b
            in if \<exists>c \<in> set root. c \<noteq> CHR ''.'' then root else b)
      else b)"

definition path_join :: "string \<Rightarrow> string \<Rightarrow> string" where
  "path_join a b =
     (if b \<noteq> [] \<and> hd b = CHR ''/'' then b
      else if a = [] \<or> last a = CHR ''/'' then a @ b
      else a @ ''/'' @ b)"

definition summary_path :: "string \<Rightarrow> string \<Rightarrow> string" where
  "summary_path output_folder input_pdf =
     path_join output_folder (splitext_root (basename input_pdf) @ ''_summary.csv'')"

definition final_path :: "string \<Rightarrow> string \<Rightarrow> string" where
  "final_path output_folder input_pdf =
     path_join output_folder (splitext_root (basename input_pdf) @ ''.csv'')"

section \<open>The commands\<close>

text \<open>
  The collaborators imported from the \<^verbatim>\<open>mobius\<close> package (line 11) and pandas' reader are
  not part of the source file; they are parameters. Each returns its result or the error it
  raises. \<^verbatim>\<open>csv_process\<close> is always called with \<^verbatim>\<open>save=True\<close>, so that argument is left
  out; the progress bar around the charts has no part in the result. What a run does is
  recorded as a list of events, in order.
\<close>

record ('p, 'd) collaborators =
  summarise :: "string \<Rightarrow> error + frame"
  graph_process :: "string \<Rightarrow> string option \<Rightarrow> bool \<Rightarrow> error + (int \<times> 'p) list"
  read_csv :: "string \<Rightarrow> error + 'd"
  csv_process :: "'p \<Rightarrow> int \<Rightarrow> 'd \<Rightarrow> string \<Rightarrow> bool \<Rightarrow> error + frame"
  prep_output_folder :: "string \<Rightarrow> string \<Rightarrow> string option \<Rightarrow> error + string"

datatype event = Printed string | Called string | Wrote string csv

text \<open>The list comprehension over the charts (lines 127 to 130 and 165 to 168).\<close>

fun csv_all ::
  "('p, 'd) collaborators \<Rightarrow> 'd \<Rightarrow> string \<Rightarrow> bool \<Rightarrow> (int \<times> 'p) list \<Rightarrow>
   event list \<times> (error + frame list)" where
  "csv_all M d out plots [] = ([], Inr [])"
| "csv_all M d out plots ((num, paths) # rest) =
     (case csv_process M paths num d out plots of
        Inl e \<Rightarrow> ([Called ''csv_process''], Inl e)
      | Inr f \<Rightarrow>
          (case csv_all M d out plots rest of
             (ev, Inl e) \<Rightarrow> (Called ''csv_process'' # ev, Inl e)
           | (ev, Inr fs) \<Rightarrow> (Called ''csv_process'' # ev, Inr (f # fs))))"

definition knit ::
  "('p, 'd) collaborators \<Rightarrow> (string \<Rightarrow> rat option option) \<Rightarrow> string \<Rightarrow> string \<Rightarrow> string \<Rightarrow>
   string \<Rightarrow> event list \<times> (error + report)" where
  "knit M pf input_pdf input_svg output_folder dates_file =
     (let e0 = [Printed (''Knitting '' @ input_pdf @ '' and '' @ input_svg @ '' data together''),
                Called ''summarise'']
      in case summarise M input_pdf of
           Inl e \<Rightarrow> (e0, Inl e)
         | Inr summary_df \<Rightarrow>
      (let e1 = e0 @ [Wrote (summary_path output_folder input_pdf) (to_csv summary_df),
                      Called ''graph_process'']
       in case graph_process M input_svg None False of
            Inl e \<Rightarrow> (e1, Inl e)
          | Inr data \<Rightarrow>
      (let e2 = e1 @ [Called ''read_csv'']
       in case read_csv M dates_file of
            Inl e \<Rightarrow> (e2, Inl e)
          | Inr date_lookup_df \<Rightarrow>
      (case csv_all M date_lookup_df output_folder False data of
         (ev, Inl e) \<Rightarrow> (e2 @ ev, Inl e)
       | (ev, Inr dfs) \<Rightarrow>
      (case concat_frames dfs of
         Inl e \<Rightarrow> (e2 @ ev, Inl e)
       | Inr plot_df \<Rightarrow>
      (case merge_outer summary_df plot_df of
         Inl e \<Rightarrow> (e2 @ ev, Inl e)
       | Inr merged \<Rightarrow>
      (case select_final merged of
         Inl e \<Rightarrow> (e2 @ ev, Inl e)
       | Inr result_df \<Rightarrow>
           (e2 @ ev @ [Wrote (final_path output_folder input_pdf) (final_csv result_df)],
            validate pf result_df))))))))"

definition proc ::
  "('p, 'd) collaborators \<Rightarrow> string \<Rightarrow> string \<Rightarrow> string option \<Rightarrow> string \<Rightarrow> bool \<Rightarrow> bool \<Rightarrow>
   event list \<times> (error + frame list)" where
  "proc M input_location output_folder folder dates_file svgs plots =
     (let e0 = [Called ''read_csv'']
      in case read_csv M dates_file of
           Inl e \<Rightarrow> (e0, Inl e)
         | Inr date_lookup_df \<Rightarrow>
      (let e1 = e0 @ [Printed (''Processing '' @ input_location), Called ''prep_output_folder'']
       in case prep_output_folder M input_location output_folder folder of
            Inl e \<Rightarrow> (e1, Inl e)
          | Inr out \<Rightarrow>
      (let e2 = e1 @ [Called ''graph_process'']
       in case graph_process M input_location (Some out) svgs of
            Inl e \<Rightarrow> (e2, Inl e)
          | Inr data \<Rightarrow>
              (case csv_all M date_lookup_df out plots data of
                 (ev, res) \<Rightarrow> (e2 @ ev, res)))))"

text \<open>The files on disk: a run applies its writes, in order, to the store it starts from.\<close>

fun apply_events :: "event list \<Rightarrow> (string \<rightharpoonup> csv) \<Rightarrow> (string \<rightharpoonup> csv)" where
  "apply_events [] fs = fs"
| "apply_events (Wrote p c # ev) fs = apply_events ev (fs(p \<mapsto> c))"
| "apply_events (_ # ev) fs = apply_events ev fs"

definition knit_store ::
  "('p, 'd) collaborators \<Rightarrow> (string \<Rightarrow> rat option option) \<Rightarrow> string \<Rightarrow> string \<Rightarrow> string \<Rightarrow>
   string \<Rightarrow> (string \<rightharpoonup> csv) \<Rightarrow> (string \<rightharpoonup> csv)" where
  "knit_store M pf input_pdf input_svg output_folder dates_file fs =
     apply_events (fst (knit M pf input_pdf input_svg output_folder dates_file)) fs"

section \<open>Example tables\<close>

text \<open>Rows of one report page, used to run the definitions on concrete tables.\<close>

definition sample_row :: "string \<Rightarrow> cell \<Rightarrow> cell \<Rightarrow> string \<Rightarrow> rrow" where
  "sample_row pl d v h =
     \<lparr>country = Str ''GB'', region = Str ''Kent'', plot_name = Str pl, page_num = Num 3,
      plot_num = Num 1, asterisk = Str ''False'', date = d, val = v, headline = Str h\<rparr>"



definition sentinel_table :: "rrow list" where
  "sentinel_table =
     [sample_row ''Parks'' (Str ''2020-03-29'') (Num 3) ''Not enough data for this date'',
      sample_row ''Retail'' (Str ''2020-03-29'') (Num (- 12)) ''-12%'']"

definition sentinel_table_normalised :: "rrow list" where
  "sentinel_table_normalised =
     [sample_row ''Parks'' (Str ''2020-03-29'') (Num 3) ''Not enough data for this date''
        \<lparr>headline := NaN\<rparr>,
      sample_row ''Retail'' (Str ''2020-03-29'') (Num (- 12)) ''-12%''
        \<lparr>headline := Num (- 12)\<rparr>]"

definition halfway_table :: "rrow list" where
  "halfway_table =
     [sample_row ''Parks'' (Str ''2020-03-29'') (Num (25 / 2)) ''12%'',
      sample_row ''Retail'' (Str ''2020-03-29'') (Num (27 / 2)) ''14%'']"

definition halfway_table_normalised :: "rrow list" where
  "halfway_table_normalised =
     [sample_row ''Parks'' (Str ''2020-03-29'') (Num (25 / 2)) ''12%'' \<lparr>headline := Num 12\<rparr>,
      sample_row ''Retail'' (Str ''2020-03-29'') (Num (27 / 2)) ''14%'' \<lparr>headline := Num 14\<rparr>]"

definition gaps_table :: "rrow list" where
  "gaps_table =
     [sample_row ''Parks'' (Str ''2020-03-28'') (Num 11) ''12%'',
      sample_row ''Parks'' (Str ''2020-03-29'') (Num 14) ''12%'',
      sample_row ''Parks'' NaN (Num 12) ''12%'',
      sample_row ''Retail'' NaN NaN ''7%'',
      sample_row ''Transit'' (Str ''2020-03-29'') (Num 5) ''Not enough data for this date'',
      sample_row ''Grocery'' (Str ''2020-03-29'') (Num 9) ''4%'' \<lparr>asterisk := NaN\<rparr>]"

definition gaps_table_normalised :: "rrow list" where
  "gaps_table_normalised =
     map (\<lambda>r. r\<lparr>headline :=
            if plot_name r = Str ''Transit'' then NaN
            else if plot_name r = Str ''Parks'' then Num 12
            else if plot_name r = Str ''Retail'' then Num 7 else Num 4\<rparr>) gaps_table"

definition gaps_report :: report where
  "gaps_report = \<lparr>plots_with_data = 1, plots_mismatch = 1,
     mismatch_table = [(Str ''GB'', Str ''Kent'', Str ''Parks'', Num 14, Num 12)]\<rparr>"

text \<open>One report with two headlines and one chart.\<close>

definition example_summary :: frame where
  "example_summary =
     \<lparr>columns = [''country'', ''region'', ''plot_name'', ''page_num'', ''plot_num'',
                 ''asterisk'', ''headline''],
      rows = [[Str ''GB'', Str ''Kent'', Str ''Parks'', Num 3, Num 1, Str ''False'', Str ''-12%''],
              [Str ''GB'', Str ''Kent'', Str ''Retail'', Num 3, Num 2, Str ''False'',
               Str ''Not enough data for this date'']]\<rparr>"

definition example_chart :: "int \<Rightarrow> frame" where
  "example_chart num =
     \<lparr>columns = [''date'', ''value'', ''graph_num''],
      rows = [[Str ''2020-03-28'', Num (- 11), Num (of_int num)],
              [Str ''2020-03-29'', Num (- 12), Num (of_int num)]]\<rparr>"

definition example_collaborators :: "(unit, unit) collaborators" where
  "example_collaborators =
     \<lparr>summarise = (\<lambda>_. Inr example_summary),
      graph_process = (\<lambda>_ _ _. Inr [(1, ())]),
      read_csv = (\<lambda>_. Inr ()),
      csv_process = (\<lambda>_ num _ _ _. Inr (example_chart num)),
      prep_output_folder = (\<lambda>_ out _. Inr out)\<rparr>"

definition example_result :: "rrow list" where
  "example_result =
     [\<lparr>country = Str ''GB'', region = Str ''Kent'', plot_name = Str ''Parks'', page_num = Num 3,
       plot_num = Num 1, asterisk = Str ''False'', date = Str ''2020-03-28'', val = Num (- 11),
       headline = Str ''-12%''\<rparr>,
      \<lparr>country = Str ''GB'', region = Str ''Kent'', plot_name = Str ''Parks'', page_num = Num 3,
       plot_num = Num 1, asterisk = Str ''False'', date = Str ''2020-03-29'', val = Num (- 12),
       headline = Str ''-12%''\<rparr>,
      \<lparr>country = Str ''GB'', region = Str ''Kent'', plot_name = Str ''Retail'', page_num = Num 3,
       plot_num = Num 2, asterisk = Str ''False'', date = NaN, val = NaN,
       headline = Str ''Not enough data for this date''\<rparr>]"

definition example_merged :: frame where
  "example_merged =
     \<lparr>columns = [''country'', ''region'', ''plot_name'', ''page_num'', ''plot_num'',
                 ''asterisk'', ''headline'', ''date'', ''value'', ''graph_num''],
      rows = [[Str ''GB'', Str ''Kent'', Str ''Parks'', Num 3, Num 1, Str ''False'', Str ''-12%'',
               Str ''2020-03-28'', Num (- 11), Num 1],
              [Str ''GB'', Str ''Kent'', Str ''Parks'', Num 3, Num 1, Str ''False'', Str ''-12%'',
               Str ''2020-03-29'', Num (- 12), Num 1],
              [Str ''GB'', Str ''Kent'', Str ''Retail'', Num 3, Num 2, Str ''False'',
               Str ''Not enough data for this date'', NaN, NaN, NaN]]\<rparr>"

text \<open>Charts 1 and 3 against the headlines of plots 1 and 2.\<close>

definition example_plots :: frame where
  "example_plots =
     \<lparr>columns = [''date'', ''value'', ''graph_num''],
      rows = [[Str ''2020-03-29'', Num (- 12), Num 1],
              [Str ''2020-03-29'', Num 4, Num 3]]\<rparr>"

definition example_outer :: frame where
  "example_outer =
     \<lparr>columns = [''country'', ''region'', ''plot_name'', ''page_num'', ''plot_num'',
                 ''asterisk'', ''headline'', ''date'', ''value'', ''graph_num''],
      rows = [[Str ''GB'', Str ''Kent'', Str ''Parks'', Num 3, Num 1, Str ''False'', Str ''-12%'',
               Str ''2020-03-29'', Num (- 12), Num 1],
              [Str ''GB'', Str ''Kent'', Str ''Retail'', Num 3, Num 2, Str ''False'',
               Str ''Not enough data for this date'', NaN, NaN, NaN],
              [NaN, NaN, NaN, NaN, NaN, NaN, NaN, Str ''2020-03-29'', Num 4, Num 3]]\<rparr>"

text \<open>
  The writes of a run, and the specification's wording for a written table: its headline
  column holds numbers or missing entries, no text.
\<close>

fun writes :: "event list \<Rightarrow> (string \<times> csv) list" where
  "writes [] = []"
| "writes (Wrote p c # ev) = (p, c) # writes ev"
| "writes (_ # ev) = writes ev"

definition headline_numeric_or_missing :: "csv \<Rightarrow> bool" where
  "headline_numeric_or_missing c =
     list_all (\<lambda>row. \<not> is_text (lookup (header c) row ''headline'')) (body c)"

text \<open>The example collaborators with a chart document, or a date table, that cannot be read.\<close>

definition unreadable_chart_collaborators :: "(unit, unit) collaborators" where
  "unreadable_chart_collaborators =
     example_collaborators
       \<lparr>graph_process := (\<lambda>_ _ _. Inl (Raised ''unreadable chart document''))\<rparr>"

definition unreadable_dates_collaborators :: "(unit, unit) collaborators" where
  "unreadable_dates_collaborators =
     example_collaborators\<lparr>read_csv := (\<lambda>_. Inl (Raised ''unreadable date lookup''))\<rparr>"

definition example_events :: "event list" where
  "example_events =
     [Printed ''Knitting pdfs/GB.pdf and svgs/GB.svg data together'', Called ''summarise'',
      Wrote ''out/GB_summary.csv'' (to_csv example_summary), Called ''graph_process'',
      Called ''read_csv'', Called ''csv_process'',
      Wrote ''out/GB.csv'' (final_csv example_result)]"

text \<open>The example report with charts 1 and 3: chart 3 has no headline.\<close>

definition unmatched_collaborators :: "(unit, unit) collaborators" where
  "unmatched_collaborators =
     example_collaborators\<lparr>graph_process := (\<lambda>_ _ _. Inr [(1, ()), (3, ())])\<rparr>"

definition unmatched_plots :: frame where
  "unmatched_plots =
     \<lparr>columns = [''date'', ''value'', ''graph_num''],
      rows = [[Str ''2020-03-28'', Num (- 11), Num 1],
              [Str ''2020-03-29'', Num (- 12), Num 1],
              [Str ''2020-03-28'', Num (- 11), Num 3],
              [Str ''2020-03-29'', Num (- 12), Num 3]]\<rparr>"

definition unmatched_merged :: frame where
  "unmatched_merged =
     \<lparr>columns = [''country'', ''region'', ''plot_name'', ''page_num'', ''plot_num'',
                 ''asterisk'', ''headline'', ''date'', ''value'', ''graph_num''],
      rows = [[Str ''GB'', Str ''Kent'', Str ''Parks'', Num 3, Num 1, Str ''False'', Str ''-12%'',
               Str ''2020-03-28'', Num (- 11), Num 1],
              [Str ''GB'', Str ''Kent'', Str ''Parks'', Num 3, Num 1, Str ''False'', Str ''-12%'',
               Str ''2020-03-29'', Num (- 12), Num 1],
              [Str ''GB'', Str ''Kent'', Str ''Retail'', Num 3, Num 2, Str ''False'',
               Str ''Not enough data for this date'', NaN, NaN, NaN],
              [NaN, NaN, NaN, NaN, NaN, NaN, NaN, Str ''2020-03-28'', Num (- 11), Num 3],
              [NaN, NaN, NaN, NaN, NaN, NaN, NaN, Str ''2020-03-29'', Num (- 12), Num 3]]\<rparr>"

definition unmatched_result :: "rrow list" where
  "unmatched_result =
     example_result @
     [\<lparr>country = NaN, region = NaN, plot_name = NaN, page_num = NaN, plot_num = NaN,
       asterisk = NaN, date = Str ''2020-03-28'', val = Num (- 11), headline = NaN\<rparr>,
      \<lparr>country = NaN, region = NaN, plot_name = NaN, page_num = NaN, plot_num = NaN,
       asterisk = NaN, date = Str ''2020-03-29'', val = Num (- 12), headline = NaN\<rparr>]"

section \<open>Rounding\<close>

lemma floor_rat_numeral_div:
  "\<lfloor>(numeral a / numeral b :: rat)\<rfloor> = numeral a div numeral b"
  by (metis floor_divide_of_int_eq of_int_numeral)

lemmas run_simps = validate_def normalise_def headline_accessor_def is_text_def
  sample_row_def headline_float_def str_replace_percent_def whole_float_def digit_val_def
  dropna_def complete_def cells_def group_key_def mismatch_def round_cell_def
  round_half_even_def floor_rat_numeral_div report_row_def Let_def


lemma round_half_even_halfway:
  "round_half_even (of_int n + 1 / 2) = (if even n then n else n + 1)"
proof -
  have "\<lfloor>(of_int n + 1 / 2 :: rat)\<rfloor> = n" by (simp add: floor_unique)
  then show ?thesis by (simp add: round_half_even_def)
qed

section \<open>Groups and their last rows\<close>

lemma current_sample_Cons:
  "current_sample (r # rs) g =
     (if group_key r = g \<and> (\<forall>r' \<in> set rs. group_key r' \<noteq> g) then Some r
      else current_sample rs g)"
proof (cases "filter (\<lambda>r. group_key r = g) rs")
  case Nil
  then have "\<forall>r' \<in> set rs. group_key r' \<noteq> g"
    by (simp add: filter_empty_conv)
  with Nil show ?thesis by (simp add: current_sample_def)
next
  case (Cons a as)
  have "a \<in> set (filter (\<lambda>r. group_key r = g) rs)"
    by (simp add: Cons)
  then have "a \<in> set rs \<and> group_key a = g" by simp
  then have "\<exists>r' \<in> set rs. group_key r' = g" by blast
  with Cons show ?thesis by (auto simp add: current_sample_def)
qed

lemma current_sample_mem:
  assumes "current_sample df g = Some r"
  shows "r \<in> set df \<and> group_key r = g"
proof -
  from assms obtain x xs where f: "filter (\<lambda>r. group_key r = g) df = x # xs"
    and r: "r = last (x # xs)"
    by (auto simp add: current_sample_def split: list.splits)
  have "last (x # xs) \<in> set (x # xs)" by (rule last_in_set) simp
  with f r have "r \<in> set (filter (\<lambda>r. group_key r = g) df)" by simp
  then show ?thesis by simp
qed

lemma tail1_subset: "set (tail1 df) \<subseteq> set df"
  by (induction df) auto

lemma tail1_iff: "r \<in> set (tail1 df) \<longleftrightarrow> (\<exists>g. current_sample df g = Some r)"
proof (induction df)
  case Nil
  show ?case by (simp add: current_sample_def)
next
  case (Cons a df)
  show ?case
  proof (cases "\<exists>r' \<in> set df. group_key r' = group_key a")
    case True
    then have "\<And>g. current_sample (a # df) g = current_sample df g"
      by (simp add: current_sample_Cons) blast
    with True Cons show ?thesis by simp
  next
    case False
    then have cs: "\<And>g. current_sample (a # df) g =
        (if g = group_key a then Some a else current_sample df g)"
      by (auto simp add: current_sample_Cons)
    have no: "current_sample df (group_key a) \<noteq> Some r"
      using False current_sample_mem by blast
    have "(\<exists>g. current_sample (a # df) g = Some r) \<longleftrightarrow>
          r = a \<or> (\<exists>g. current_sample df g = Some r)"
    proof
      assume "\<exists>g. current_sample (a # df) g = Some r"
      then obtain g where "current_sample (a # df) g = Some r" ..
      then have h: "(if g = group_key a then Some a else current_sample df g) = Some r"
        by (simp only: cs)
      show "r = a \<or> (\<exists>g. current_sample df g = Some r)"
      proof (cases "g = group_key a")
        case True
        with h show ?thesis by simp
      next
        case False
        with h have "current_sample df g = Some r" by simp
        then show ?thesis by blast
      qed
    next
      assume "r = a \<or> (\<exists>g. current_sample df g = Some r)"
      then show "\<exists>g. current_sample (a # df) g = Some r"
      proof
        assume "r = a"
        then have "current_sample (a # df) (group_key a) = Some r" by (simp add: cs)
        then show ?thesis ..
      next
        assume "\<exists>g. current_sample df g = Some r"
        then obtain g where g: "current_sample df g = Some r" ..
        with no have "g \<noteq> group_key a" by auto
        with g have "current_sample (a # df) g = Some r" by (simp add: cs)
        then show ?thesis ..
      qed
    qed
    with False Cons show ?thesis by simp
  qed
qed

lemma tail1_keys: "group_key ` set (tail1 df) = group_key ` set df"
proof (induction df)
  case Nil
  show ?case by simp
next
  case (Cons a df)
  show ?case
  proof (cases "\<exists>r' \<in> set df. group_key r' = group_key a")
    case True
    then have "group_key a \<in> group_key ` set df" by (metis image_eqI)
    with True Cons show ?thesis by (simp add: insert_absorb)
  next
    case False
    with Cons show ?thesis by simp
  qed
qed

lemma tail1_distinct: "distinct (map group_key (tail1 df))"
proof (induction df)
  case Nil
  show ?case by simp
next
  case (Cons a df)
  show ?case
  proof (cases "\<exists>r' \<in> set df. group_key r' = group_key a")
    case True
    with Cons show ?thesis by simp
  next
    case False
    then have "group_key a \<notin> group_key ` set df" by force
    then have "group_key a \<notin> group_key ` set (tail1 df)"
      by (simp add: tail1_keys)
    with False Cons show ?thesis by simp
  qed
qed

lemma tail1_length: "length (tail1 df) = card (group_key ` set df)"
proof -
  have "length (tail1 df) = length (map group_key (tail1 df))" by simp
  also have "\<dots> = card (set (map group_key (tail1 df)))"
    using distinct_card [OF tail1_distinct, of df] by simp
  also have "\<dots> = card (group_key ` set df)"
    by (simp add: tail1_keys)
  finally show ?thesis .
qed

lemma latest_sorted:
  "sorted_wrt (\<lambda>a b. cell_le (date a) (date b)) (r # rs) \<Longrightarrow> latest r rs = last (r # rs)"
  by (induction rs arbitrary: r) auto

lemma current_sample_chronological:
  assumes "sorted_wrt (\<lambda>a b. cell_le (date a) (date b)) (filter (\<lambda>r. group_key r = g) df)"
  shows "current_sample df g = chronological_sample df g"
  using assms latest_sorted
  by (auto simp add: current_sample_def chronological_sample_def split: list.splits)

section \<open>The headline column and the report\<close>

lemma str_contains_iff: "str_contains s pat \<longleftrightarrow> (\<exists>a b. s = a @ pat @ b)"
proof (induction s)
  case Nil
  show ?case by auto
next
  case (Cons c cs)
  show ?case
  proof
    assume "str_contains (c # cs) pat"
    then consider "take (length pat) (c # cs) = pat" | "str_contains cs pat" by auto
    then show "\<exists>a b. c # cs = a @ pat @ b"
    proof cases
      case 1
      then have "c # cs = [] @ pat @ drop (length pat) (c # cs)"
        by (metis append_Nil append_take_drop_id)
      then show ?thesis by blast
    next
      case 2
      with Cons obtain a b where "cs = a @ pat @ b" by blast
      then have "c # cs = (c # a) @ pat @ b" by simp
      then show ?thesis by blast
    qed
  next
    assume "\<exists>a b. c # cs = a @ pat @ b"
    then obtain a b where ab: "c # cs = a @ pat @ b" by blast
    show "str_contains (c # cs) pat"
    proof (cases a)
      case Nil
      with ab have "take (length pat) (c # cs) = pat" by simp
      then show ?thesis by simp
    next
      case (Cons x a')
      with ab have "cs = a' @ pat @ b" by simp
      with Cons.IH have "str_contains cs pat" by blast
      then show ?thesis by simp
    qed
  qed
qed

lemma str_contains_replace_percent:
  assumes "str_contains s pat" and "CHR ''%'' \<notin> set pat"
  shows "str_contains (str_replace_percent s) pat"
proof -
  from assms(1) obtain a b where "s = a @ pat @ b"
    by (auto simp add: str_contains_iff)
  moreover from assms(2) have "filter (\<lambda>c. c \<noteq> CHR ''%'') pat = pat"
    by (auto simp add: filter_id_conv)
  ultimately have "str_replace_percent s =
      str_replace_percent a @ pat @ str_replace_percent b"
    by (simp add: str_replace_percent_def)
  then show ?thesis by (auto simp add: str_contains_iff)
qed

lemma headline_column_rel:
  "headline_column pf df = Inr df' \<Longrightarrow>
   list_all2 (\<lambda>r r'. \<exists>s h. headline r = Str s \<and> headline_float pf s = Inr h \<and>
                r' = r\<lparr>headline := h\<rparr>) df df'"
proof (induction df arbitrary: df')
  case Nil
  then show ?case by simp
next
  case (Cons r rs)
  from Cons.prems obtain s h rs' where
    "headline r = Str s" "headline_float pf s = Inr h"
    "headline_column pf rs = Inr rs'" "df' = r\<lparr>headline := h\<rparr> # rs'"
    by (auto split: cell.splits sum.splits)
  with Cons.IH show ?case by simp
qed

lemma normalise_rel:
  "normalise pf df = Inr df' \<Longrightarrow>
   list_all2 (\<lambda>r r'. \<exists>s h. headline r = Str s \<and> headline_float pf s = Inr h \<and>
                r' = r\<lparr>headline := h\<rparr>) df df'"
proof -
  assume "normalise pf df = Inr df'"
  then have "headline_column pf df = Inr df'"
    by (simp add: normalise_def split: sum.splits)
  then show ?thesis by (rule headline_column_rel)
qed

lemma validate_Inr:
  assumes "validate pf df = Inr rep"
  shows "\<exists>df'. normalise pf df = Inr df' \<and>
          rep = \<lparr>plots_with_data = length (tail1 (dropna df')),
                 plots_mismatch = length (filter mismatch (tail1 (dropna df'))),
                 mismatch_table = map report_row (filter mismatch (tail1 (dropna df')))\<rparr>"
  using assms by (auto simp add: validate_def Let_def split: sum.splits if_splits)

lemma reported_iff:
  assumes "normalise pf df = Inr df'" and "validate pf df = Inr rep"
  shows "reported rep g \<longleftrightarrow> (\<exists>r. current_sample (dropna df') g = Some r \<and> mismatch r)"
proof -
  from validate_Inr [OF assms(2)] assms(1)
  have tab: "mismatch_table rep = map report_row (filter mismatch (tail1 (dropna df')))"
    by auto
  have "reported rep g \<longleftrightarrow>
        (\<exists>r \<in> set (tail1 (dropna df')). mismatch r \<and> group_key r = g)"
    by (auto simp add: reported_def tab report_row_def group_key_def)
  also have "\<dots> \<longleftrightarrow> (\<exists>r. current_sample (dropna df') g = Some r \<and> mismatch r)"
  proof
    assume "\<exists>r \<in> set (tail1 (dropna df')). mismatch r \<and> group_key r = g"
    then obtain r where r: "r \<in> set (tail1 (dropna df'))" "mismatch r" "group_key r = g"
      by blast
    from r(1) obtain g' where g': "current_sample (dropna df') g' = Some r"
      by (auto simp only: tail1_iff)
    with current_sample_mem [OF g'] r(3) have "current_sample (dropna df') g = Some r"
      by simp
    with r(2) show "\<exists>r. current_sample (dropna df') g = Some r \<and> mismatch r" by blast
  next
    assume "\<exists>r. current_sample (dropna df') g = Some r \<and> mismatch r"
    then obtain r where r: "current_sample (dropna df') g = Some r" "mismatch r" by blast
    from r(1) have "r \<in> set (tail1 (dropna df'))"
      unfolding tail1_iff by blast
    with current_sample_mem [OF r(1)] r(2)
    show "\<exists>r \<in> set (tail1 (dropna df')). mismatch r \<and> group_key r = g" by blast
  qed
  finally show ?thesis .
qed

section \<open>The example run\<close>

lemmas frame_simps = lookup_def concat_frames_def union_columns_def merge_outer_def
  sort_cells_def cell_le_def suffixed_def join_group_def select_final_def final_columns_def
  to_csv_def final_csv_def basename_def splitext_root_def path_join_def summary_path_def
  final_path_def example_summary_def example_chart_def example_collaborators_def

lemma ex_concat: "concat_frames [example_chart 1] = Inr (example_chart 1)"
  by (simp add: frame_simps Let_def)

lemma ex_merge: "merge_outer example_summary (example_chart 1) = Inr example_merged"
  by (simp add: frame_simps example_merged_def Let_def)

lemma ex_select: "select_final example_merged = Inr example_result"
  by (simp add: frame_simps example_merged_def example_result_def)

lemma ex_validate: "validate whole_float example_result =
    Inr \<lparr>plots_with_data = 1, plots_mismatch = 0, mismatch_table = []\<rparr>"
  by (simp add: example_result_def run_simps)

lemma ex_knit: "knit example_collaborators whole_float ''pdfs/GB.pdf'' ''svgs/GB.svg'' ''out''
     ''config/dates_lookup.csv'' =
   ([Printed ''Knitting pdfs/GB.pdf and svgs/GB.svg data together'', Called ''summarise'',
     Wrote ''out/GB_summary.csv'' (to_csv example_summary), Called ''graph_process'',
     Called ''read_csv'', Called ''csv_process'',
     Wrote ''out/GB.csv'' (final_csv example_result)],
    Inr \<lparr>plots_with_data = 1, plots_mismatch = 0, mismatch_table = []\<rparr>)"
proof -
  have p1: "summary_path ''out'' ''pdfs/GB.pdf'' = ''out/GB_summary.csv''"
    by (simp add: summary_path_def path_join_def basename_def splitext_root_def)
  have p2: "final_path ''out'' ''pdfs/GB.pdf'' = ''out/GB.csv''"
    by (simp add: final_path_def path_join_def basename_def splitext_root_def)
  show ?thesis
    by (simp add: knit_def example_collaborators_def ex_concat ex_merge ex_select ex_validate
        p1 p2)
qed

section \<open>The claims about the validation step\<close>

lemma headline_float_sentinel:
  assumes "str_contains s ''Not enough data''"
  shows "headline_float pf s = Inr NaN"
proof -
  have "str_contains (str_replace_percent s) ''Not enough data''"
    using assms by (rule str_contains_replace_percent) simp
  then show ?thesis by (simp add: headline_float_def)
qed

lemma headline_float_number:
  assumes "\<not> str_contains (str_replace_percent s) ''Not enough data''"
    and "headline_float pf s = Inr h"
  shows "\<exists>f. pf (str_replace_percent s) = Some f \<and> h = (case f of None \<Rightarrow> NaN | Some q \<Rightarrow> Num q)"
  using assms by (auto simp add: headline_float_def split: option.splits)

lemma normalise_val:
  assumes "normalise pf df = Inr df'" and "r' \<in> set df'"
  shows "\<exists>r \<in> set df. val r' = val r"
proof -
  let ?P = "\<lambda>r r'. \<exists>s h. headline r = Str s \<and> headline_float pf s = Inr h \<and>
                r' = r\<lparr>headline := h\<rparr>"
  from normalise_rel [OF assms(1)] have rel: "list_all2 ?P df df'" .
  from assms(2) obtain i where i: "i < length df'" and r': "r' = df' ! i"
    by (auto simp add: in_set_conv_nth)
  from rel have len: "length df = length df'" by (rule list_all2_lengthD)
  with i have "i < length df" by simp
  with rel have "?P (df ! i) (df' ! i)" by (rule list_all2_nthD)
  with r' have "val r' = val (df ! i)" by auto
  moreover from i len have "df ! i \<in> set df" by simp
  ultimately show ?thesis by blast
qed

lemma complete_iff:
  "complete r \<longleftrightarrow> country r \<noteq> NaN \<and> region r \<noteq> NaN \<and> plot_name r \<noteq> NaN \<and>
     page_num r \<noteq> NaN \<and> plot_num r \<noteq> NaN \<and> asterisk r \<noteq> NaN \<and> date r \<noteq> NaN \<and>
     val r \<noteq> NaN \<and> headline r \<noteq> NaN"
  by (auto simp add: complete_def cells_def)

lemma normalise_keeps_dates:
  assumes "normalise pf df = Inr df'"
  shows "list_all2 (\<lambda>r r'. date r' = date r \<and> group_key r' = group_key r) df df'"
proof -
  have "list_all2 (\<lambda>r r'. \<exists>s h. headline r = Str s \<and> headline_float pf s = Inr h \<and>
                r' = r\<lparr>headline := h\<rparr>) df df'"
    using assms by (rule normalise_rel)
  then show ?thesis
    by (rule list_all2_mono) (auto simp add: group_key_def)
qed

lemma date_order_kept:
  assumes "list_all2 (\<lambda>r r'. date r' = date r \<and> group_key r' = group_key r) df df'"
    and "sorted_wrt (\<lambda>a b. cell_le (date a) (date b)) (filter (\<lambda>r. group_key r = g) df)"
  shows "sorted_wrt (\<lambda>a b. cell_le (date a) (date b))
           (filter (\<lambda>r. group_key r = g) (filter Q df'))"
  using assms
proof (induction rule: list_all2_induct)
  case Nil
  show ?case by simp
next
  case (Cons x xs y ys)
  from Cons.hyps(1) have xy: "date y = date x" "group_key y = group_key x" by simp_all
  show ?case
  proof (cases "group_key x = g")
    case False
    with Cons xy show ?thesis by simp
  next
    case True
    with Cons.prems have le: "\<forall>z \<in> set xs. group_key z = g \<longrightarrow> cell_le (date x) (date z)"
      and so: "sorted_wrt (\<lambda>a b. cell_le (date a) (date b)) (filter (\<lambda>r. group_key r = g) xs)"
      by auto
    from Cons.IH [OF so]
    have ih: "sorted_wrt (\<lambda>a b. cell_le (date a) (date b))
        (filter (\<lambda>r. group_key r = g) (filter Q ys))" .
    have "cell_le (date y) (date z')" if z': "z' \<in> set ys" "group_key z' = g" for z'
    proof -
      from z'(1) obtain i where i: "i < length ys" "z' = ys ! i"
        by (auto simp add: in_set_conv_nth)
      from Cons.hyps(2) have len: "length xs = length ys" by (rule list_all2_lengthD)
      with i have ix: "i < length xs" by simp
      with Cons.hyps(2) have "date (ys ! i) = date (xs ! i) \<and>
          group_key (ys ! i) = group_key (xs ! i)"
        by (rule list_all2_nthD)
      moreover from ix have "xs ! i \<in> set xs" by simp
      ultimately show ?thesis using le i(2) z'(2) xy(1) by auto
    qed
    with ih True xy show ?thesis by auto
  qed
qed



text \<open>
  Claim C3. Every headline text that contains the phrase "Not enough data" becomes a missing
  headline, never the number zero; every other text (the phrase is looked for once the
  percent signs are gone) becomes the number that \<^verbatim>\<open>float\<close> reads from it without its
  percent signs.
\<close>

theorem sentinel_headline_is_missing:
  assumes "normalise pf df = Inr df'"
  shows "length df' = length df \<and>
         (\<forall>i < length df. \<exists>s. headline (df ! i) = Str s \<and>
            (str_contains s ''Not enough data'' \<longrightarrow>
               headline (df' ! i) = NaN \<and> headline (df' ! i) \<noteq> Num 0) \<and>
            (\<not> str_contains (str_replace_percent s) ''Not enough data'' \<longrightarrow>
               (\<exists>f. pf (str_replace_percent s) = Some f \<and>
                    headline (df' ! i) = (case f of None \<Rightarrow> NaN | Some q \<Rightarrow> Num q))))"
proof -
  let ?P = "\<lambda>r r'. \<exists>s h. headline r = Str s \<and> headline_float pf s = Inr h \<and>
                r' = r\<lparr>headline := h\<rparr>"
  from normalise_rel [OF assms] have rel: "list_all2 ?P df df'" .
  then have len: "length df' = length df" by (simp add: list_all2_lengthD)
  have "\<exists>s. headline (df ! i) = Str s \<and>
            (str_contains s ''Not enough data'' \<longrightarrow>
               headline (df' ! i) = NaN \<and> headline (df' ! i) \<noteq> Num 0) \<and>
            (\<not> str_contains (str_replace_percent s) ''Not enough data'' \<longrightarrow>
               (\<exists>f. pf (str_replace_percent s) = Some f \<and>
                    headline (df' ! i) = (case f of None \<Rightarrow> NaN | Some q \<Rightarrow> Num q)))"
    if i: "i < length df" for i
  proof -
    from rel i have "?P (df ! i) (df' ! i)" by (rule list_all2_nthD)
    then obtain s h where s: "headline (df ! i) = Str s"
      and h: "headline_float pf s = Inr h" and r': "headline (df' ! i) = h"
      by auto
    have a: "str_contains s ''Not enough data'' \<Longrightarrow> h = NaN"
      using headline_float_sentinel [of s pf] h by simp
    have b: "\<not> str_contains (str_replace_percent s) ''Not enough data'' \<Longrightarrow>
        \<exists>f. pf (str_replace_percent s) = Some f \<and> h = (case f of None \<Rightarrow> NaN | Some q \<Rightarrow> Num q)"
      using headline_float_number [of s pf h] h by simp
    from s a b r' show ?thesis by auto
  qed
  with len show ?thesis by blast
qed

theorem sentinel_headline_is_missing_witness:
  "normalise whole_float sentinel_table = Inr sentinel_table_normalised \<and>
   length sentinel_table_normalised = length sentinel_table \<and>
   str_contains ''Not enough data for this date'' ''Not enough data'' \<and>
   headline (sentinel_table ! 0) = Str ''Not enough data for this date'' \<and>
   headline (sentinel_table_normalised ! 0) = NaN \<and>
   headline (sentinel_table ! 1) = Str ''-12%'' \<and>
   headline (sentinel_table_normalised ! 1) = Num (- 12)"
proof -
  have h: "normalise whole_float sentinel_table = Inr sentinel_table_normalised"
    by (simp add: sentinel_table_def sentinel_table_normalised_def run_simps)
  from sentinel_headline_is_missing [OF h]
  have l: "length sentinel_table_normalised = length sentinel_table"
    by (rule conjunct1)
  have c: "str_contains ''Not enough data for this date'' ''Not enough data''"
    by simp
  have r: "headline (sentinel_table ! 0) = Str ''Not enough data for this date'' \<and>
      headline (sentinel_table_normalised ! 0) = NaN \<and>
      headline (sentinel_table ! 1) = Str ''-12%'' \<and>
      headline (sentinel_table_normalised ! 1) = Num (- 12)"
    by (simp add: sentinel_table_def sentinel_table_normalised_def sample_row_def)
  from h l c r show ?thesis by blast
qed

text \<open>
  Claim C4. On a table whose headline column normalises and whose value column holds no
  text, \<^verbatim>\<open>validate\<close> returns its report, whatever the number of mismatches: every group
  whose rounded current value differs from its headline is in the report with its country,
  region, plot name, value and headline.
\<close>

theorem mismatch_is_reported_not_raised:
  assumes "normalise pf df = Inr df'" and "\<forall>r \<in> set df. \<not> is_text (val r)"
  shows "\<exists>rep. validate pf df = Inr rep \<and>
           plots_mismatch rep = length (mismatch_table rep) \<and>
           (\<forall>g r. current_sample (dropna df') g = Some r \<and> round_cell (val r) \<noteq> headline r
                  \<longrightarrow> reported rep g \<and>
                       (country r, region r, plot_name r, val r, headline r)
                         \<in> set (mismatch_table rep))"
proof -
  let ?last = "tail1 (dropna df')"
  let ?rep = "\<lparr>plots_with_data = length ?last,
                plots_mismatch = length (filter mismatch ?last),
                mismatch_table = map report_row (filter mismatch ?last)\<rparr>"
  have "\<not> is_text (val r')" if "r' \<in> set df'" for r'
    using normalise_val [OF assms(1) that] assms(2) by auto
  then have "\<not> list_ex (\<lambda>r. is_text (val r)) df'"
    by (simp add: list_ex_iff)
  with assms(1) have v: "validate pf df = Inr ?rep"
    by (simp add: validate_def Let_def)
  have b: "plots_mismatch ?rep = length (mismatch_table ?rep)" by simp
  have "reported ?rep g \<and>
        (country r, region r, plot_name r, val r, headline r) \<in> set (mismatch_table ?rep)"
    if c: "current_sample (dropna df') g = Some r" and m: "round_cell (val r) \<noteq> headline r"
    for g r
  proof -
    from m have m': "mismatch r" by (simp add: mismatch_def)
    with c reported_iff [OF assms(1) v] have "reported ?rep g" by blast
    moreover from c have "r \<in> set ?last" unfolding tail1_iff by blast
    with m' have "report_row r \<in> set (mismatch_table ?rep)" by simp
    ultimately show ?thesis by (simp add: report_row_def)
  qed
  then have "\<forall>g r. current_sample (dropna df') g = Some r \<and>
         round_cell (val r) \<noteq> headline r \<longrightarrow>
       reported ?rep g \<and>
       (country r, region r, plot_name r, val r, headline r) \<in> set (mismatch_table ?rep)"
    by blast
  with v b show ?thesis by blast
qed

theorem mismatch_is_reported_not_raised_witness:
  "normalise whole_float gaps_table = Inr gaps_table_normalised \<and>
   list_all (\<lambda>r. \<not> is_text (val r)) gaps_table \<and>
   (\<exists>rep. validate whole_float gaps_table = Inr rep \<and>
           plots_mismatch rep = length (mismatch_table rep) \<and>
           (\<forall>g r. current_sample (dropna gaps_table_normalised) g = Some r \<and>
                  round_cell (val r) \<noteq> headline r
                  \<longrightarrow> reported rep g \<and>
                       (country r, region r, plot_name r, val r, headline r)
                         \<in> set (mismatch_table rep))) \<and>
   validate whole_float gaps_table = Inr gaps_report"
proof -
  have n: "normalise whole_float gaps_table = Inr gaps_table_normalised"
    by (simp add: gaps_table_def gaps_table_normalised_def run_simps)
  have t: "list_all (\<lambda>r. \<not> is_text (val r)) gaps_table"
    by (simp add: gaps_table_def sample_row_def is_text_def)
  then have t': "\<forall>r \<in> set gaps_table. \<not> is_text (val r)"
    by (simp add: list_all_iff)
  have v: "validate whole_float gaps_table = Inr gaps_report"
    by (simp add: gaps_table_def gaps_report_def run_simps)
  from n t mismatch_is_reported_not_raised [OF n t'] v show ?thesis by blast
qed

text \<open>
  Claim C9. In a group whose rows stand in date order, a chronologically last value halfway
  between two whole numbers is compared with the even one of the two: the group is reported
  exactly when its headline differs from that even number. So 12.5 against the headline 12
  and 13.5 against the headline 14 are not reported.
\<close>

theorem halfway_value_goes_to_even:
  assumes "validate pf df = Inr rep" and "normalise pf df = Inr df'"
    and "sorted_wrt (\<lambda>a b. cell_le (date a) (date b)) (filter (\<lambda>r. group_key r = g) df)"
    and "chronological_sample (dropna df') g = Some r"
    and "val r = Num (of_int n + 1 / 2)"
  shows "reported rep g \<longleftrightarrow> headline r \<noteq> Num (of_int (if even n then n else n + 1))"
proof -
  have "sorted_wrt (\<lambda>a b. cell_le (date a) (date b))
          (filter (\<lambda>r. group_key r = g) (dropna df'))"
    unfolding dropna_def
    using normalise_keeps_dates [OF assms(2)] assms(3) by (rule date_order_kept)
  then have "current_sample (dropna df') g = chronological_sample (dropna df') g"
    by (rule current_sample_chronological)
  with assms(4) have c: "current_sample (dropna df') g = Some r" by simp
  from assms(5) have "round_cell (val r) = Num (of_int (if even n then n else n + 1))"
    by (simp only: round_cell_def cell.case round_half_even_halfway)
  then have "mismatch r \<longleftrightarrow> headline r \<noteq> Num (of_int (if even n then n else n + 1))"
    by (auto simp add: mismatch_def)
  with reported_iff [OF assms(2) assms(1), of g] c show ?thesis by simp
qed

theorem halfway_value_goes_to_even_witness:
  "(validate whole_float halfway_table =
      Inr \<lparr>plots_with_data = 2, plots_mismatch = 0, mismatch_table = []\<rparr> \<and>
    normalise whole_float halfway_table = Inr halfway_table_normalised \<and>
    sorted_wrt (\<lambda>a b. cell_le (date a) (date b))
      (filter (\<lambda>r. group_key r = (Str ''Kent'', Str ''Parks'')) halfway_table) \<and>
    chronological_sample (dropna halfway_table_normalised) (Str ''Kent'', Str ''Parks'') =
      Some (halfway_table_normalised ! 0) \<and>
    val (halfway_table_normalised ! 0) = Num (of_int 12 + 1 / 2) \<and>
    sorted_wrt (\<lambda>a b. cell_le (date a) (date b))
      (filter (\<lambda>r. group_key r = (Str ''Kent'', Str ''Retail'')) halfway_table) \<and>
    chronological_sample (dropna halfway_table_normalised) (Str ''Kent'', Str ''Retail'') =
      Some (halfway_table_normalised ! 1) \<and>
    val (halfway_table_normalised ! 1) = Num (of_int 13 + 1 / 2)) \<and>
   \<not> reported \<lparr>plots_with_data = 2, plots_mismatch = 0, mismatch_table = []\<rparr>
        (Str ''Kent'', Str ''Parks'') \<and>
   \<not> reported \<lparr>plots_with_data = 2, plots_mismatch = 0, mismatch_table = []\<rparr>
        (Str ''Kent'', Str ''Retail'') \<and>
   headline (halfway_table_normalised ! 0) = Num 12 \<and>
   headline (halfway_table_normalised ! 1) = Num 14"
proof -
  have v: "validate whole_float halfway_table =
      Inr \<lparr>plots_with_data = 2, plots_mismatch = 0, mismatch_table = []\<rparr>"
    by (simp add: halfway_table_def run_simps)
  have n: "normalise whole_float halfway_table = Inr halfway_table_normalised"
    by (simp add: halfway_table_def halfway_table_normalised_def run_simps)
  have s0: "sorted_wrt (\<lambda>a b. cell_le (date a) (date b))
      (filter (\<lambda>r. group_key r = (Str ''Kent'', Str ''Parks'')) halfway_table)"
    by (simp add: halfway_table_def sample_row_def group_key_def)
  have s1: "sorted_wrt (\<lambda>a b. cell_le (date a) (date b))
      (filter (\<lambda>r. group_key r = (Str ''Kent'', Str ''Retail'')) halfway_table)"
    by (simp add: halfway_table_def sample_row_def group_key_def)
  have c0: "chronological_sample (dropna halfway_table_normalised) (Str ''Kent'', Str ''Parks'') =
      Some (halfway_table_normalised ! 0)"
    by (simp add: halfway_table_normalised_def chronological_sample_def run_simps)
  have c1: "chronological_sample (dropna halfway_table_normalised) (Str ''Kent'', Str ''Retail'') =
      Some (halfway_table_normalised ! 1)"
    by (simp add: halfway_table_normalised_def chronological_sample_def run_simps)
  have v0: "val (halfway_table_normalised ! 0) = Num (of_int 12 + 1 / 2)"
    by (simp add: halfway_table_normalised_def sample_row_def)
  have v1: "val (halfway_table_normalised ! 1) = Num (of_int 13 + 1 / 2)"
    by (simp add: halfway_table_normalised_def sample_row_def)
  have h0: "headline (halfway_table_normalised ! 0) = Num 12"
    by (simp add: halfway_table_normalised_def sample_row_def)
  have h1: "headline (halfway_table_normalised ! 1) = Num 14"
    by (simp add: halfway_table_normalised_def sample_row_def)
  from halfway_value_goes_to_even [OF v n s0 c0 v0] h0
  have r0: "\<not> reported \<lparr>plots_with_data = 2, plots_mismatch = 0, mismatch_table = []\<rparr>
        (Str ''Kent'', Str ''Parks'')" by simp
  from halfway_value_goes_to_even [OF v n s1 c1 v1] h1
  have r1: "\<not> reported \<lparr>plots_with_data = 2, plots_mismatch = 0, mismatch_table = []\<rparr>
        (Str ''Kent'', Str ''Retail'')" by simp
  from v n s0 c0 v0 s1 c1 v1 r0 r1 h0 h1 show ?thesis by blast
qed

text \<open>
  What \<^verbatim>\<open>dropna\<close> does where \<^verbatim>\<open>validate\<close> gets as far as its report: the rows counted
  and reported have no missing entry in any of the nine columns.
\<close>

lemma counted_rows_have_no_gap:
  assumes "validate pf df = Inr rep"
  shows "\<exists>df'. normalise pf df = Inr df' \<and>
           plots_with_data rep =
             card (group_key ` {r \<in> set df'. country r \<noteq> NaN \<and> region r \<noteq> NaN \<and>
                plot_name r \<noteq> NaN \<and> page_num r \<noteq> NaN \<and> plot_num r \<noteq> NaN \<and>
                asterisk r \<noteq> NaN \<and> date r \<noteq> NaN \<and> val r \<noteq> NaN \<and> headline r \<noteq> NaN}) \<and>
           (\<forall>e \<in> set (mismatch_table rep). \<exists>r \<in> set df'.
                e = (country r, region r, plot_name r, val r, headline r) \<and>
                country r \<noteq> NaN \<and> region r \<noteq> NaN \<and>
                plot_name r \<noteq> NaN \<and> page_num r \<noteq> NaN \<and> plot_num r \<noteq> NaN \<and>
                asterisk r \<noteq> NaN \<and> date r \<noteq> NaN \<and> val r \<noteq> NaN \<and> headline r \<noteq> NaN)"
proof -
  from validate_Inr [OF assms] obtain df' where n: "normalise pf df = Inr df'"
    and rep: "rep = \<lparr>plots_with_data = length (tail1 (dropna df')),
                 plots_mismatch = length (filter mismatch (tail1 (dropna df'))),
                 mismatch_table = map report_row (filter mismatch (tail1 (dropna df')))\<rparr>"
    by blast
  have set_eq: "set (dropna df') = {r \<in> set df'. country r \<noteq> NaN \<and> region r \<noteq> NaN \<and>
                plot_name r \<noteq> NaN \<and> page_num r \<noteq> NaN \<and> plot_num r \<noteq> NaN \<and>
                asterisk r \<noteq> NaN \<and> date r \<noteq> NaN \<and> val r \<noteq> NaN \<and> headline r \<noteq> NaN}"
    by (auto simp add: dropna_def complete_iff)
  have count: "plots_with_data rep = card (group_key ` set (dropna df'))"
    by (simp add: rep tail1_length)
  have "\<exists>r \<in> set (dropna df'). e = report_row r" if "e \<in> set (mismatch_table rep)" for e
    using that tail1_subset [of "dropna df'"] by (auto simp add: rep)
  then have "\<forall>e \<in> set (mismatch_table rep). \<exists>r \<in> set (dropna df').
       e = (country r, region r, plot_name r, val r, headline r)"
    by (simp add: report_row_def)
  with n count show ?thesis unfolding set_eq by (intro exI [of _ df']) blast
qed

section \<open>The claims about the pipeline\<close>

lemma set_insert_cell: "set (insert_cell x ys) = insert x (set ys)"
  by (induction ys) auto

lemma set_sort_cells: "set (sort_cells xs) = set xs"
  by (induction xs) (simp_all add: sort_cells_def set_insert_cell)

lemma join_group_left_only:
  assumes "\<forall>r \<in> set rs. rk r \<noteq> k"
  shows "set (join_group nl nr (filter (\<lambda>l. lk l = k) ls) (filter (\<lambda>r. rk r = k) rs)) =
         {l @ replicate nr NaN | l. l \<in> set ls \<and> lk l = k}"
proof -
  from assms have "filter (\<lambda>r. rk r = k) rs = []" by (simp add: filter_empty_conv)
  then show ?thesis by (auto simp add: join_group_def)
qed

lemma join_group_right_only:
  assumes "\<exists>r \<in> set rs. rk r = k" and "\<forall>l \<in> set ls. lk l \<noteq> k"
  shows "set (join_group nl nr (filter (\<lambda>l. lk l = k) ls) (filter (\<lambda>r. rk r = k) rs)) =
         {replicate nl NaN @ r | r. r \<in> set rs \<and> rk r = k}"
proof -
  from assms(1) have "filter (\<lambda>r. rk r = k) rs \<noteq> []" by (simp add: filter_empty_conv)
  moreover from assms(2) have "filter (\<lambda>l. lk l = k) ls = []" by (simp add: filter_empty_conv)
  ultimately show ?thesis by (auto simp add: join_group_def)
qed

lemma join_group_both:
  assumes "\<exists>r \<in> set rs. rk r = k" and "\<exists>l \<in> set ls. lk l = k"
  shows "set (join_group nl nr (filter (\<lambda>l. lk l = k) ls) (filter (\<lambda>r. rk r = k) rs)) =
         {l @ r | l r. l \<in> set ls \<and> r \<in> set rs \<and> lk l = k \<and> rk r = k}"
proof -
  from assms(1) have "filter (\<lambda>r. rk r = k) rs \<noteq> []" by (simp add: filter_empty_conv)
  moreover from assms(2) have "filter (\<lambda>l. lk l = k) ls \<noteq> []" by (simp add: filter_empty_conv)
  ultimately show ?thesis by (auto simp add: join_group_def)
qed


lemma merge_outer_Inr:
  assumes "merge_outer left right = Inr merged"
  shows "merged =
     \<lparr>columns = suffixed (columns right) ''_x'' (columns left) @
                suffixed (columns left) ''_y'' (columns right),
      rows = concat (map (\<lambda>k. join_group (length (columns left)) (length (columns right))
                 (filter (\<lambda>l. lookup (columns left) l ''plot_num'' = k) (rows left))
                 (filter (\<lambda>r. lookup (columns right) r ''graph_num'' = k) (rows right)))
               (sort_cells (remdups (map (\<lambda>l. lookup (columns left) l ''plot_num'') (rows left) @
                                    map (\<lambda>r. lookup (columns right) r ''graph_num'') (rows right)))))\<rparr>"
  using assms by (simp add: merge_outer_def Let_def split: if_splits)

text \<open>
  Claim C2. The merged table is the full outer join of the headline table and the series
  table on \<^verbatim>\<open>plot_num = graph_num\<close>: its rows are the pairs of rows with equal keys, the
  headline rows without a series row of their key, padded with missing entries on the
  series side, and the series rows without a headline row of their key, padded with missing
  entries on the headline side. No row of either table is dropped.
\<close>

theorem outer_join_keeps_every_row:
  assumes "merge_outer left right = Inr merged"
  shows "columns merged = suffixed (columns right) ''_x'' (columns left) @
                          suffixed (columns left) ''_y'' (columns right) \<and>
         set (rows merged) =
           {l @ r | l r. l \<in> set (rows left) \<and> r \<in> set (rows right) \<and>
                     lookup (columns left) l ''plot_num'' =
                     lookup (columns right) r ''graph_num''} \<union>
           {l @ replicate (length (columns right)) NaN | l. l \<in> set (rows left) \<and>
                     (\<forall>r \<in> set (rows right). lookup (columns right) r ''graph_num'' \<noteq>
                                             lookup (columns left) l ''plot_num'')} \<union>
           {replicate (length (columns left)) NaN @ r | r. r \<in> set (rows right) \<and>
                     (\<forall>l \<in> set (rows left). lookup (columns left) l ''plot_num'' \<noteq>
                                            lookup (columns right) r ''graph_num'')}"
proof -
  define lk where "lk = (\<lambda>l. lookup (columns left) l ''plot_num'')"
  define rk where "rk = (\<lambda>r. lookup (columns right) r ''graph_num'')"
  define nl where "nl = length (columns left)"
  define nr where "nr = length (columns right)"
  define L where "L = rows left"
  define R where "R = rows right"
  define G where "G = (\<lambda>k. set (join_group nl nr (filter (\<lambda>l. lk l = k) L)
                                               (filter (\<lambda>r. rk r = k) R)))"
  note m = merge_outer_Inr [OF assms]
  have cols: "columns merged = suffixed (columns right) ''_x'' (columns left) @
                          suffixed (columns left) ''_y'' (columns right)"
    by (subst m) simp
  have rows_eq: "set (rows merged) = (\<Union>k \<in> lk ` set L \<union> rk ` set R. G k)"
    by (subst m) (simp add: set_sort_cells lk_def rk_def nl_def nr_def L_def R_def G_def)
  have G1: "G k = {l @ replicate nr NaN | l. l \<in> set L \<and> lk l = k}"
    if "\<forall>r \<in> set R. rk r \<noteq> k" for k
    unfolding G_def using that by (rule join_group_left_only)
  have G2: "G k = {replicate nl NaN @ r | r. r \<in> set R \<and> rk r = k}"
    if "\<exists>r \<in> set R. rk r = k" and "\<forall>l \<in> set L. lk l \<noteq> k" for k
    unfolding G_def using that by (rule join_group_right_only)
  have G3: "G k = {l @ r | l r. l \<in> set L \<and> r \<in> set R \<and> lk l = k \<and> rk r = k}"
    if "\<exists>r \<in> set R. rk r = k" and "\<exists>l \<in> set L. lk l = k" for k
    unfolding G_def using that by (rule join_group_both)
  have "set (rows merged) =
      {l @ r | l r. l \<in> set L \<and> r \<in> set R \<and> lk l = rk r} \<union>
      {l @ replicate nr NaN | l. l \<in> set L \<and> (\<forall>r \<in> set R. rk r \<noteq> lk l)} \<union>
      {replicate nl NaN @ r | r. r \<in> set R \<and> (\<forall>l \<in> set L. lk l \<noteq> rk r)}"
    (is "_ = ?A \<union> ?B \<union> ?C")
  proof (rule set_eqI)
    fix x
    show "x \<in> set (rows merged) \<longleftrightarrow> x \<in> ?A \<union> ?B \<union> ?C"
    proof
      assume "x \<in> set (rows merged)"
      then obtain k where x: "x \<in> G k" unfolding rows_eq by auto
      show "x \<in> ?A \<union> ?B \<union> ?C"
      proof (cases "\<exists>r \<in> set R. rk r = k")
        case False
        then have nk: "\<forall>r \<in> set R. rk r \<noteq> k" by blast
        from x have "x \<in> {l @ replicate nr NaN | l. l \<in> set L \<and> lk l = k}"
          unfolding G1 [OF nk] .
        then have "\<exists>l. x = l @ replicate nr NaN \<and> l \<in> set L \<and> lk l = k"
          by (rule CollectD)
        then obtain l where "x = l @ replicate nr NaN" "l \<in> set L" "lk l = k"
          by (elim exE conjE)
        with nk have "\<exists>l'. x = l' @ replicate nr NaN \<and> l' \<in> set L \<and>
            (\<forall>r \<in> set R. rk r \<noteq> lk l')"
          by (intro exI [of _ l]) simp
        then have "x \<in> ?B" by (rule CollectI)
        then show ?thesis by (intro UnI1 UnI2)
      next
        case r: True
        show ?thesis
        proof (cases "\<exists>l \<in> set L. lk l = k")
          case False
          then have nk: "\<forall>l \<in> set L. lk l \<noteq> k" by blast
          from x have "x \<in> {replicate nl NaN @ r | r. r \<in> set R \<and> rk r = k}"
            unfolding G2 [OF r nk] .
          then have "\<exists>r. x = replicate nl NaN @ r \<and> r \<in> set R \<and> rk r = k"
            by (rule CollectD)
          then obtain r' where "x = replicate nl NaN @ r'" "r' \<in> set R" "rk r' = k"
            by (elim exE conjE)
          with nk have "\<exists>r. x = replicate nl NaN @ r \<and> r \<in> set R \<and>
              (\<forall>l \<in> set L. lk l \<noteq> rk r)"
            by (intro exI [of _ r']) simp
          then have "x \<in> ?C" by (rule CollectI)
          then show ?thesis by (intro UnI2)
        next
          case True
          from x have "x \<in> {l @ r | l r. l \<in> set L \<and> r \<in> set R \<and> lk l = k \<and> rk r = k}"
            unfolding G3 [OF r True] .
          then have "\<exists>l r. x = l @ r \<and> l \<in> set L \<and> r \<in> set R \<and> lk l = k \<and> rk r = k"
            by (rule CollectD)
          then obtain l r' where "x = l @ r'" "l \<in> set L" "r' \<in> set R"
            "lk l = k" "rk r' = k" by (elim exE conjE)
          then have "\<exists>l' r. x = l' @ r \<and> l' \<in> set L \<and> r \<in> set R \<and> lk l' = rk r"
            by (intro exI [of _ l] exI [of _ r']) simp
          then have "x \<in> ?A" by (rule CollectI)
          then show ?thesis by (intro UnI1)
        qed
      qed
    next
      assume "x \<in> ?A \<union> ?B \<union> ?C"
      then consider "x \<in> ?A" | "x \<in> ?B" | "x \<in> ?C" by (elim UnE)
      then show "x \<in> set (rows merged)"
      proof cases
        case 1
        then have "\<exists>l r. x = l @ r \<and> l \<in> set L \<and> r \<in> set R \<and> lk l = rk r"
          by (rule CollectD)
        then obtain l r where lr: "x = l @ r" "l \<in> set L" "r \<in> set R" "lk l = rk r"
          by (elim exE conjE)
        then have ex: "\<exists>r \<in> set R. rk r = lk l" "\<exists>l' \<in> set L. lk l' = lk l" by auto
        from lr have "\<exists>l' r'. x = l' @ r' \<and> l' \<in> set L \<and> r' \<in> set R \<and>
            lk l' = lk l \<and> rk r' = lk l"
          by (intro exI [of _ l] exI [of _ r]) simp
        then have "x \<in> G (lk l)" unfolding G3 [OF ex] by (rule CollectI)
        with lr(2) show ?thesis unfolding rows_eq by auto
      next
        case 2
        then have "\<exists>l. x = l @ replicate nr NaN \<and> l \<in> set L \<and>
            (\<forall>r \<in> set R. rk r \<noteq> lk l)"
          by (rule CollectD)
        then obtain l where l: "x = l @ replicate nr NaN" "l \<in> set L"
          "\<forall>r \<in> set R. rk r \<noteq> lk l" by (elim exE conjE)
        from l(1,2) have "\<exists>l'. x = l' @ replicate nr NaN \<and> l' \<in> set L \<and> lk l' = lk l"
          by (intro exI [of _ l]) simp
        then have "x \<in> G (lk l)" unfolding G1 [OF l(3)] by (rule CollectI)
        with l(2) show ?thesis unfolding rows_eq by auto
      next
        case 3
        then have "\<exists>r. x = replicate nl NaN @ r \<and> r \<in> set R \<and>
            (\<forall>l \<in> set L. lk l \<noteq> rk r)"
          by (rule CollectD)
        then obtain r where r: "x = replicate nl NaN @ r" "r \<in> set R"
          "\<forall>l \<in> set L. lk l \<noteq> rk r" by (elim exE conjE)
        from r(2) have ex: "\<exists>r' \<in> set R. rk r' = rk r" by auto
        from r(1,2) have "\<exists>r'. x = replicate nl NaN @ r' \<and> r' \<in> set R \<and> rk r' = rk r"
          by (intro exI [of _ r]) simp
        then have "x \<in> G (rk r)" unfolding G2 [OF ex r(3)] by (rule CollectI)
        with r(2) show ?thesis unfolding rows_eq by auto
      qed
    qed
  qed
  with cols show ?thesis
    unfolding lk_def rk_def nl_def nr_def L_def R_def by (rule conjI)
qed

theorem outer_join_keeps_every_row_witness:
  "merge_outer example_summary example_plots = Inr example_outer \<and>
   (columns example_outer = suffixed (columns example_plots) ''_x'' (columns example_summary) @
                          suffixed (columns example_summary) ''_y'' (columns example_plots) \<and>
    set (rows example_outer) =
           {l @ r | l r. l \<in> set (rows example_summary) \<and> r \<in> set (rows example_plots) \<and>
                     lookup (columns example_summary) l ''plot_num'' =
                     lookup (columns example_plots) r ''graph_num''} \<union>
           {l @ replicate (length (columns example_plots)) NaN | l.
                     l \<in> set (rows example_summary) \<and>
                     (\<forall>r \<in> set (rows example_plots).
                         lookup (columns example_plots) r ''graph_num'' \<noteq>
                         lookup (columns example_summary) l ''plot_num'')} \<union>
           {replicate (length (columns example_summary)) NaN @ r | r.
                     r \<in> set (rows example_plots) \<and>
                     (\<forall>l \<in> set (rows example_summary).
                         lookup (columns example_summary) l ''plot_num'' \<noteq>
                         lookup (columns example_plots) r ''graph_num'')}) \<and>
   [Str ''GB'', Str ''Kent'', Str ''Retail'', Num 3, Num 2, Str ''False'',
    Str ''Not enough data for this date'', NaN, NaN, NaN] \<in> set (rows example_outer) \<and>
   [NaN, NaN, NaN, NaN, NaN, NaN, NaN, Str ''2020-03-29'', Num 4, Num 3]
     \<in> set (rows example_outer)"
proof -
  have h: "merge_outer example_summary example_plots = Inr example_outer"
    by (simp add: frame_simps example_plots_def example_outer_def Let_def)
  have a: "[Str ''GB'', Str ''Kent'', Str ''Retail'', Num 3, Num 2, Str ''False'',
    Str ''Not enough data for this date'', NaN, NaN, NaN] \<in> set (rows example_outer)"
    by (simp add: example_outer_def)
  have b: "[NaN, NaN, NaN, NaN, NaN, NaN, NaN, Str ''2020-03-29'', Num 4, Num 3]
     \<in> set (rows example_outer)"
    by (simp add: example_outer_def)
  note t = outer_join_keeps_every_row [OF h]
  show ?thesis by (rule conjI [OF h conjI [OF t conjI [OF a b]]])
qed

lemma writes_append: "writes (a @ b) = writes a @ writes b"
  by (induction a rule: writes.induct) simp_all

lemma writes_iff: "(p, c) \<in> set (writes ev) \<longleftrightarrow> Wrote p c \<in> set ev"
  by (induction ev rule: writes.induct) auto

lemma csv_all_writes: "writes (fst (csv_all M d out plots data)) = []"
  by (induction data) (auto split: sum.splits prod.splits)

lemma paths_differ: "summary_path out pdf \<noteq> final_path out pdf"
proof -
  define s where "s = splitext_root (basename pdf)"
  have "path_join out (s @ ''_summary.csv'') \<noteq> path_join out (s @ ''.csv'')"
    by (cases s) (simp_all add: path_join_def)
  then show ?thesis by (simp add: summary_path_def final_path_def s_def)
qed

lemma knit_writes:
  assumes "knit M pf pdf svg out dates = (ev, res)"
  shows "(\<exists>e. summarise M pdf = Inl e \<and> writes ev = [] \<and> res = Inl e) \<or>
         (\<exists>s e. summarise M pdf = Inr s \<and>
                writes ev = [(summary_path out pdf, to_csv s)] \<and> res = Inl e) \<or>
         (\<exists>s plot_df merged result_df.
                summarise M pdf = Inr s \<and> merge_outer s plot_df = Inr merged \<and>
                select_final merged = Inr result_df \<and>
                writes ev = [(summary_path out pdf, to_csv s),
                             (final_path out pdf, final_csv result_df)] \<and>
                res = validate pf result_df)"
proof (cases "summarise M pdf")
  case (Inl e)
  with assms show ?thesis by (auto simp add: knit_def)
next
  case s: (Inr s)
  show ?thesis
  proof (cases "graph_process M svg None False")
    case (Inl e)
    with assms s show ?thesis by (auto simp add: knit_def)
  next
    case g: (Inr data)
    show ?thesis
    proof (cases "read_csv M dates")
      case (Inl e)
      with assms s g show ?thesis by (auto simp add: knit_def)
    next
      case d: (Inr dl)
      obtain cev cres where c: "csv_all M dl out False data = (cev, cres)"
        by (cases "csv_all M dl out False data")
      from csv_all_writes [of M dl out False data] c have w: "writes cev = []" by simp
      show ?thesis
      proof (cases cres)
        case (Inl e)
        with assms s g d c w show ?thesis by (auto simp add: knit_def writes_append)
      next
        case dfs: (Inr dfs)
        show ?thesis
        proof (cases "concat_frames dfs")
          case (Inl e)
          with assms s g d c w dfs show ?thesis by (auto simp add: knit_def writes_append)
        next
          case p: (Inr plot_df)
          show ?thesis
          proof (cases "merge_outer s plot_df")
            case (Inl e)
            with assms s g d c w dfs p show ?thesis
              by (auto simp add: knit_def writes_append)
          next
            case m: (Inr merged)
            show ?thesis
            proof (cases "select_final merged")
              case (Inl e)
              with assms s g d c w dfs p m show ?thesis
                by (auto simp add: knit_def writes_append)
            next
              case r: (Inr result_df)
              from assms s g d c w dfs p m r
              have "writes ev = [(summary_path out pdf, to_csv s),
                                 (final_path out pdf, final_csv result_df)]"
                and "res = validate pf result_df"
                by (auto simp add: knit_def writes_append)
              with s m r show ?thesis
                by (intro disjI2 exI [of _ s] exI [of _ plot_df] exI [of _ merged]
                    exI [of _ result_df]) simp
            qed
          qed
        qed
      qed
    qed
  qed
qed


lemma example_paths:
  "summary_path ''out'' ''pdfs/GB.pdf'' = ''out/GB_summary.csv''"
  "final_path ''out'' ''pdfs/GB.pdf'' = ''out/GB.csv''"
  by (simp_all add: summary_path_def final_path_def path_join_def basename_def
      splitext_root_def)

lemma example_knit:
  "knit example_collaborators whole_float ''pdfs/GB.pdf'' ''svgs/GB.svg'' ''out''
     ''config/dates_lookup.csv'' =
   (example_events, Inr \<lparr>plots_with_data = 1, plots_mismatch = 0, mismatch_table = []\<rparr>)"
  using ex_knit by (simp add: example_events_def)

text \<open>
  Claim C5, as amended. Both tables are written before the validation step runs, with the
  headline column as the text extractor produced it: the summary table is written as
  \<^verbatim>\<open>summarise\<close> returned it, and the final table is the selection from the merged table
  that is handed to \<^verbatim>\<open>validate\<close>, not the table \<^verbatim>\<open>validate\<close> normalises in memory.
\<close>

theorem tables_written_before_normalisation:
  assumes "knit M pf pdf svg out dates = (ev, res)" and "Wrote p c \<in> set ev"
  shows "\<exists>summary_df. summarise M pdf = Inr summary_df \<and>
           ((p = summary_path out pdf \<and> c = to_csv summary_df) \<or>
            (\<exists>plot_df merged result_df.
                merge_outer summary_df plot_df = Inr merged \<and>
                select_final merged = Inr result_df \<and>
                p = final_path out pdf \<and> c = final_csv result_df \<and>
                res = validate pf result_df))"
proof -
  from assms(2) have w: "(p, c) \<in> set (writes ev)" by (simp add: writes_iff)
  from knit_writes [OF assms(1)] consider
      (a) "writes ev = []"
    | (b) s where "summarise M pdf = Inr s"
        "writes ev = [(summary_path out pdf, to_csv s)]"
    | (c) s plot_df merged result_df where "summarise M pdf = Inr s"
        "merge_outer s plot_df = Inr merged" "select_final merged = Inr result_df"
        "writes ev = [(summary_path out pdf, to_csv s),
                      (final_path out pdf, final_csv result_df)]"
        "res = validate pf result_df"
    by blast
  then show ?thesis
  proof cases
    case a
    with w show ?thesis by simp
  next
    case b
    with w show ?thesis by simp
  next
    case c
    from w c(4) consider "p = summary_path out pdf \<and> c = to_csv s"
      | "p = final_path out pdf \<and> c = final_csv result_df" by auto
    then show ?thesis
    proof cases
      case 1
      with c(1) show ?thesis by simp
    next
      case 2
      with c show ?thesis
        by (intro exI [of _ s] conjI disjI2 exI [of _ plot_df] exI [of _ merged]
            exI [of _ result_df]) simp_all
    qed
  qed
qed

theorem tables_written_before_normalisation_witness:
  "knit example_collaborators whole_float ''pdfs/GB.pdf'' ''svgs/GB.svg'' ''out''
     ''config/dates_lookup.csv'' =
     (example_events, Inr \<lparr>plots_with_data = 1, plots_mismatch = 0, mismatch_table = []\<rparr>) \<and>
   Wrote ''out/GB.csv'' (final_csv example_result) \<in> set example_events \<and>
   (\<exists>summary_df. summarise example_collaborators ''pdfs/GB.pdf'' = Inr summary_df) \<and>
   list_all (\<lambda>r. is_text (headline r)) example_result"
proof -
  note k = example_knit
  have w: "Wrote ''out/GB.csv'' (final_csv example_result) \<in> set example_events"
    by (simp add: example_events_def)
  have t: "list_all (\<lambda>r. is_text (headline r)) example_result"
    by (simp add: example_result_def is_text_def)
  from tables_written_before_normalisation [OF k w]
  have c: "\<exists>summary_df. summarise example_collaborators ''pdfs/GB.pdf'' = Inr summary_df"
    by (elim exE conjE) (rule exI)
  show ?thesis by (rule conjI [OF k conjI [OF w conjI [OF c t]]])
qed

text \<open>
  Claim C5 as it is written fails on the example run: both written tables hold the headline
  texts \<^verbatim>\<open>-12%\<close> and \<^verbatim>\<open>Not enough data for this date\<close>.
\<close>

theorem persisted_headline_counterexample:
  "knit example_collaborators whole_float ''pdfs/GB.pdf'' ''svgs/GB.svg'' ''out''
     ''config/dates_lookup.csv'' =
     ([Printed ''Knitting pdfs/GB.pdf and svgs/GB.svg data together'', Called ''summarise'',
       Wrote ''out/GB_summary.csv'' (to_csv example_summary), Called ''graph_process'',
       Called ''read_csv'', Called ''csv_process'',
       Wrote ''out/GB.csv'' (final_csv example_result)],
      Inr \<lparr>plots_with_data = 1, plots_mismatch = 0, mismatch_table = []\<rparr>) \<and>
   \<not> headline_numeric_or_missing (to_csv example_summary) \<and>
   \<not> headline_numeric_or_missing (final_csv example_result) \<and>
   lookup (header (final_csv example_result)) (body (final_csv example_result) ! 0)
     ''headline'' = Str ''-12%'' \<and>
   lookup (header (final_csv example_result)) (body (final_csv example_result) ! 2)
     ''headline'' = Str ''Not enough data for this date''"
proof -
  have a: "\<not> headline_numeric_or_missing (to_csv example_summary)"
    by (simp add: headline_numeric_or_missing_def to_csv_def example_summary_def lookup_def
        is_text_def)
  have b: "\<not> headline_numeric_or_missing (final_csv example_result)"
    by (simp add: headline_numeric_or_missing_def final_csv_def final_columns_def
        example_result_def cells_def lookup_def is_text_def)
  have c: "lookup (header (final_csv example_result)) (body (final_csv example_result) ! 0)
     ''headline'' = Str ''-12%''"
    by (simp add: final_csv_def final_columns_def example_result_def cells_def lookup_def)
  have d: "lookup (header (final_csv example_result)) (body (final_csv example_result) ! 2)
     ''headline'' = Str ''Not enough data for this date''"
    by (simp add: final_csv_def final_columns_def example_result_def cells_def lookup_def)
  from ex_knit a b c d show ?thesis by (intro conjI)
qed

text \<open>
  Claim C6. The final table is written with the header country, region, plot_name, page_num,
  plot_num, asterisk, date, value, headline, in that order, each row under it with nine
  cells and no index column; a run that ends without an error has written it.
\<close>

theorem final_table_columns:
  assumes "knit M pf pdf svg out dates = (ev, res)"
  shows "(\<forall>c. Wrote (final_path out pdf) c \<in> set ev \<longrightarrow>
            header c = [''country'', ''region'', ''plot_name'', ''page_num'', ''plot_num'',
                        ''asterisk'', ''date'', ''value'', ''headline''] \<and>
            (\<forall>row \<in> set (body c). length row = 9)) \<and>
         (\<forall>rep. res = Inr rep \<longrightarrow> (\<exists>c. Wrote (final_path out pdf) c \<in> set ev))"
proof -
  have hdr: "header (final_csv df) = [''country'', ''region'', ''plot_name'', ''page_num'',
      ''plot_num'', ''asterisk'', ''date'', ''value'', ''headline''] \<and>
      (\<forall>row \<in> set (body (final_csv df)). length row = 9)" for df
    by (auto simp add: final_csv_def final_columns_def cells_def)
  from knit_writes [OF assms] consider
      (a) e where "writes ev = []" "res = Inl e"
    | (b) s e where "writes ev = [(summary_path out pdf, to_csv s)]" "res = Inl e"
    | (c) s result_df where
        "writes ev = [(summary_path out pdf, to_csv s),
                      (final_path out pdf, final_csv result_df)]"
    by blast
  then show ?thesis
  proof cases
    case a
    then show ?thesis by (simp add: writes_iff [symmetric])
  next
    case b
    with paths_differ [of out pdf] show ?thesis
      by (auto simp add: writes_iff [symmetric])
  next
    case c
    with paths_differ [of out pdf] hdr [of result_df] show ?thesis
      by (auto simp add: writes_iff [symmetric])
  qed
qed

theorem final_table_columns_witness:
  "knit example_collaborators whole_float ''pdfs/GB.pdf'' ''svgs/GB.svg'' ''out''
     ''config/dates_lookup.csv'' =
     (example_events, Inr \<lparr>plots_with_data = 1, plots_mismatch = 0, mismatch_table = []\<rparr>) \<and>
   Wrote (final_path ''out'' ''pdfs/GB.pdf'') (final_csv example_result) \<in> set example_events \<and>
   header (final_csv example_result) =
     [''country'', ''region'', ''plot_name'', ''page_num'', ''plot_num'',
      ''asterisk'', ''date'', ''value'', ''headline''] \<and>
   list_all (\<lambda>row. length row = 9) (body (final_csv example_result))"
proof -
  note k = example_knit
  have w: "Wrote (final_path ''out'' ''pdfs/GB.pdf'') (final_csv example_result)
      \<in> set example_events"
    by (simp add: example_events_def example_paths)
  from final_table_columns [OF k, THEN conjunct1] w
  have c: "header (final_csv example_result) =
     [''country'', ''region'', ''plot_name'', ''page_num'', ''plot_num'',
      ''asterisk'', ''date'', ''value'', ''headline''] \<and>
     (\<forall>row \<in> set (body (final_csv example_result)). length row = 9)"
    by (elim allE impE) assumption+
  then have h: "header (final_csv example_result) =
     [''country'', ''region'', ''plot_name'', ''page_num'', ''plot_num'',
      ''asterisk'', ''date'', ''value'', ''headline'']" by (rule conjunct1)
  from c have b: "list_all (\<lambda>row. length row = 9) (body (final_csv example_result))"
    unfolding list_all_iff by (rule conjunct2)
  show ?thesis by (rule conjI [OF k conjI [OF w conjI [OF h b]]])
qed

text \<open>
  Claim C7, as amended. An error of a loader ends the run with that error; nothing is called
  or written after the failing call and the call is not repeated. What was written before
  it stays: in \<^verbatim>\<open>knit\<close> the summary table is already written when the chart document
  or the date table fails to load, while a text document that fails to load leaves no
  table; in \<^verbatim>\<open>proc\<close> the date table is read first.
\<close>

theorem load_error_aborts_run:
  "(\<forall>e. summarise M pdf = Inl e \<longrightarrow>
       knit M pf pdf svg out dates =
         ([Printed (''Knitting '' @ pdf @ '' and '' @ svg @ '' data together''),
           Called ''summarise''], Inl e)) \<and>
   (\<forall>s e. summarise M pdf = Inr s \<and> graph_process M svg None False = Inl e \<longrightarrow>
       knit M pf pdf svg out dates =
         ([Printed (''Knitting '' @ pdf @ '' and '' @ svg @ '' data together''),
           Called ''summarise'', Wrote (summary_path out pdf) (to_csv s),
           Called ''graph_process''], Inl e)) \<and>
   (\<forall>s data e. summarise M pdf = Inr s \<and> graph_process M svg None False = Inr data \<and>
         read_csv M dates = Inl e \<longrightarrow>
       knit M pf pdf svg out dates =
         ([Printed (''Knitting '' @ pdf @ '' and '' @ svg @ '' data together''),
           Called ''summarise'', Wrote (summary_path out pdf) (to_csv s),
           Called ''graph_process'', Called ''read_csv''], Inl e)) \<and>
   (\<forall>e. read_csv M dates = Inl e \<longrightarrow>
       proc M loc out folder dates svgs plots = ([Called ''read_csv''], Inl e)) \<and>
   (\<forall>d out' e. read_csv M dates = Inr d \<and> prep_output_folder M loc out folder = Inr out' \<and>
         graph_process M loc (Some out') svgs = Inl e \<longrightarrow>
       proc M loc out folder dates svgs plots =
         ([Called ''read_csv'', Printed (''Processing '' @ loc), Called ''prep_output_folder'',
           Called ''graph_process''], Inl e))"
  by (simp add: knit_def proc_def)

theorem load_error_aborts_run_witness:
  "summarise unreadable_dates_collaborators ''pdfs/GB.pdf'' = Inr example_summary \<and>
   graph_process unreadable_dates_collaborators ''svgs/GB.svg'' None False = Inr [(1, ())] \<and>
   read_csv unreadable_dates_collaborators ''config/dates_lookup.csv'' =
     Inl (Raised ''unreadable date lookup'') \<and>
   knit unreadable_dates_collaborators whole_float ''pdfs/GB.pdf'' ''svgs/GB.svg'' ''out''
     ''config/dates_lookup.csv'' =
     ([Printed (''Knitting '' @ ''pdfs/GB.pdf'' @ '' and '' @ ''svgs/GB.svg'' @
                '' data together''),
       Called ''summarise'', Wrote (summary_path ''out'' ''pdfs/GB.pdf'') (to_csv example_summary),
       Called ''graph_process'', Called ''read_csv''],
      Inl (Raised ''unreadable date lookup''))"
proof -
  have s: "summarise unreadable_dates_collaborators ''pdfs/GB.pdf'' = Inr example_summary"
    by (simp add: unreadable_dates_collaborators_def example_collaborators_def)
  have g: "graph_process unreadable_dates_collaborators ''svgs/GB.svg'' None False =
      Inr [(1, ())]"
    by (simp add: unreadable_dates_collaborators_def example_collaborators_def)
  have r: "read_csv unreadable_dates_collaborators ''config/dates_lookup.csv'' =
     Inl (Raised ''unreadable date lookup'')"
    by (simp add: unreadable_dates_collaborators_def example_collaborators_def)
  note t = load_error_aborts_run [of unreadable_dates_collaborators "''pdfs/GB.pdf''"
      whole_float "''svgs/GB.svg''" "''out''" "''config/dates_lookup.csv''",
      THEN conjunct2, THEN conjunct2, THEN conjunct1, rule_format, OF conjI [OF s conjI [OF g r]]]
  show ?thesis by (rule conjI [OF s conjI [OF g conjI [OF r t]]])
qed

text \<open>
  Claim C7 as it is written fails on a chart document that cannot be read: the run ends
  with the error after the summary table has been written.
\<close>

theorem partial_output_counterexample:
  "knit unreadable_chart_collaborators whole_float ''pdfs/GB.pdf'' ''svgs/GB.svg'' ''out''
     ''config/dates_lookup.csv'' =
     ([Printed ''Knitting pdfs/GB.pdf and svgs/GB.svg data together'', Called ''summarise'',
       Wrote ''out/GB_summary.csv'' (to_csv example_summary), Called ''graph_process''],
      Inl (Raised ''unreadable chart document'')) \<and>
   knit_store unreadable_chart_collaborators whole_float ''pdfs/GB.pdf'' ''svgs/GB.svg'' ''out''
     ''config/dates_lookup.csv'' Map.empty ''out/GB_summary.csv'' =
     Some (to_csv example_summary)"
  by (simp add: knit_store_def knit_def unreadable_chart_collaborators_def
      example_collaborators_def example_paths)

lemma unmatched_concat:
  "concat_frames [example_chart 1, example_chart 3] = Inr unmatched_plots"
  by (simp add: frame_simps unmatched_plots_def Let_def)

lemma unmatched_merge: "merge_outer example_summary unmatched_plots = Inr unmatched_merged"
  by (simp add: frame_simps unmatched_plots_def unmatched_merged_def Let_def)

lemma unmatched_select: "select_final unmatched_merged = Inr unmatched_result"
  by (simp add: frame_simps unmatched_merged_def unmatched_result_def example_result_def)

text \<open>
  Claim C10, at a report with a chart that has no headline. The outer join leaves the rows
  of chart 3 without a headline, the final table is written with them, and \<^verbatim>\<open>validate\<close>
  raises \<^verbatim>\<open>ValueError\<close> at the mask of line 141, before \<^verbatim>\<open>dropna\<close> at line 143: the run
  prints neither the count of plots with data nor the mismatch table, where the claim has
  these rows left out of both.
\<close>

theorem unmatched_series_row_raises:
  "knit unmatched_collaborators whole_float ''pdfs/GB.pdf'' ''svgs/GB.svg'' ''out''
     ''config/dates_lookup.csv'' =
     ([Printed ''Knitting pdfs/GB.pdf and svgs/GB.svg data together'', Called ''summarise'',
       Wrote ''out/GB_summary.csv'' (to_csv example_summary), Called ''graph_process'',
       Called ''read_csv'', Called ''csv_process'', Called ''csv_process'',
       Wrote ''out/GB.csv'' (final_csv unmatched_result)],
      Inl ValueError) \<and>
   validate whole_float unmatched_result = Inl ValueError \<and>
   headline (unmatched_result ! 3) = NaN \<and>
   val (unmatched_result ! 3) = Num (- 11)"
proof -
  have v: "validate whole_float unmatched_result = Inl ValueError"
    by (simp add: unmatched_result_def example_result_def validate_def normalise_def
        headline_accessor_def is_text_def)
  have k: "knit unmatched_collaborators whole_float ''pdfs/GB.pdf'' ''svgs/GB.svg'' ''out''
     ''config/dates_lookup.csv'' =
     ([Printed ''Knitting pdfs/GB.pdf and svgs/GB.svg data together'', Called ''summarise'',
       Wrote ''out/GB_summary.csv'' (to_csv example_summary), Called ''graph_process'',
       Called ''read_csv'', Called ''csv_process'', Called ''csv_process'',
       Wrote ''out/GB.csv'' (final_csv unmatched_result)],
      Inl ValueError)"
    by (simp add: knit_def unmatched_collaborators_def example_collaborators_def
        unmatched_concat unmatched_merge unmatched_select v example_paths)
  have h: "headline (unmatched_result ! 3) = NaN \<and> val (unmatched_result ! 3) = Num (- 11)"
    by (simp add: unmatched_result_def example_result_def)
  from k v h show ?thesis by simp
qed

end
